theory Spec2Isabelle
  imports Main "HOL-Library.Sublist" "HOL-Library.AList"
    "HOL-Library.Char_ord" "HOL-Library.List_Lexorder"
begin

section \<open>The animal shelter of abrigo-animais.js\<close>

text \<open>
  A shallow embedding of the class \<open>AbrigoAnimais\<close> (src/src/abrigo-animais.js).
  A JavaScript string is a \<open>string\<close>, one \<open>char\<close> per code unit (code units below
  256: the catalogue, the toy tokens and the labels are all ASCII). A thrown exception is
  the \<open>Inl\<close> of a sum. The two objects that the code uses as dictionaries are modelled
  with what JavaScript does on them: a property read on \<open>this.catalogo\<close> also finds the
  properties inherited from \<open>Object.prototype\<close>, and \<open>destino\<close> keeps its keys in
  insertion order.
\<close>

subsection \<open>Values, exceptions and results\<close>

text \<open>An argument of \<open>encontraPessoas\<close>: a string, or a value of any other type.\<close>

datatype jsvalor = Str string | NaoString

text \<open>The two messages of the interface, \<open>Brinquedo invalido\<close> and \<open>Animal invalido\<close>
  (written with an acute accent in the source).\<close>

datatype mensagem = Brinquedo_invalido | Animal_invalido

text \<open>
  What a \<open>throw\<close> carries: \<open>new Error(m)\<close> with one of the two messages, or the
  \<open>TypeError\<close> that the engine raises when a property of \<open>undefined\<close> is read.
\<close>

datatype excecao = Error mensagem | TypeError

text \<open>The returned object: \<open>{ lista }\<close> or \<open>{ erro }\<close>.\<close>

datatype resultado = lista "string list" | erro mensagem

subsection \<open>The constructor: catalogue and valid toys\<close>

record info_animal =
  tipo :: string
  brinquedos :: "string list"

definition catalogo_entradas :: "(string \<times> info_animal) list" where
  "catalogo_entradas =
    [(''Rex'',  \<lparr>tipo = ''cao'',    brinquedos = [''RATO'', ''BOLA'']\<rparr>),
     (''Mimi'', \<lparr>tipo = ''gato'',   brinquedos = [''BOLA'', ''LASER'']\<rparr>),
     (''Fofo'', \<lparr>tipo = ''gato'',   brinquedos = [''BOLA'', ''RATO'', ''LASER'']\<rparr>),
     (''Zero'', \<lparr>tipo = ''gato'',   brinquedos = [''RATO'', ''BOLA'']\<rparr>),
     (''Bola'', \<lparr>tipo = ''cao'',    brinquedos = [''CAIXA'', ''NOVELO'']\<rparr>),
     (''Bebe'', \<lparr>tipo = ''cao'',    brinquedos = [''LASER'', ''RATO'', ''BOLA'']\<rparr>),
     (''Loco'', \<lparr>tipo = ''jabuti'', brinquedos = [''SKATE'', ''RATO'']\<rparr>)]"

text \<open>
  The species of Rex, Bola and Bebe is written with a tilde in the source; the code only
  ever compares a species with \<open>gato\<close>, so the ASCII spelling changes nothing.

  \<open>this.catalogo\<close> is an object literal, so \<open>this.catalogo[nome]\<close> is a property
  read through the prototype chain. Besides the seven own properties it finds the
  properties of \<open>Object.prototype\<close> (ECMAScript, with its Annex B), each of them a
  function or, for \<open>__proto__\<close>, the prototype object: truthy values without a
  \<open>brinquedos\<close> or a \<open>tipo\<close> property.
\<close>

definition object_prototype_chaves :: "string list" where
  "object_prototype_chaves =
    [''constructor'', ''__defineGetter__'', ''__defineSetter__'', ''hasOwnProperty'',
     ''__lookupGetter__'', ''__lookupSetter__'', ''isPrototypeOf'',
     ''propertyIsEnumerable'', ''toString'', ''valueOf'', ''__proto__'',
     ''toLocaleString'']"

datatype propriedade = Proprio info_animal | Herdado | Indefinido

definition catalogo :: "string \<Rightarrow> propriedade" where
  "catalogo nome =
    (case map_of catalogo_entradas nome of
       Some info \<Rightarrow> Proprio info
     | None \<Rightarrow> if nome \<in> set object_prototype_chaves then Herdado else Indefinido)"

definition brinquedosValidos :: "string list" where
  "brinquedosValidos = [''RATO'', ''BOLA'', ''LASER'', ''CAIXA'', ''NOVELO'', ''SKATE'']"

subsection \<open>parseLista\<close>

text \<open>
  \<open>String.prototype.trim\<close> removes white space and line terminators at both ends; among
  the code units below 256 these are TAB, LF, VT, FF, CR, SP and NBSP.
\<close>

definition espaco :: "char \<Rightarrow> bool" where
  "espaco c \<longleftrightarrow> c \<in> set [CHR 0x09, CHR 0x0A, CHR 0x0B, CHR 0x0C, CHR 0x0D, CHR 0x20, CHR 0xA0]"

definition trim :: "string \<Rightarrow> string" where
  "trim s = rev (dropWhile espaco (rev (dropWhile espaco s)))"

text \<open>\<open>str.split(',')\<close>: the pieces between the commas; one empty piece for the empty string.\<close>

fun split_virgula :: "string \<Rightarrow> string list" where
  "split_virgula [] = [[]]"
| "split_virgula (c # cs) =
    (if c = CHR '','' then [] # split_virgula cs
     else (case split_virgula cs of
             [] \<Rightarrow> [[c]]
           | p # ps \<Rightarrow> (c # p) # ps))"

fun parseLista :: "jsvalor \<Rightarrow> string list" where
  "parseLista NaoString = []"
| "parseLista (Str str) =
    (if trim str = [] then []
     else filter (\<lambda>s. length s > 0) (map trim (split_virgula str)))"

subsection \<open>Validation\<close>

text \<open>The two loops, with the set of items seen so far as an argument.\<close>

fun validaBrinquedos_laco :: "string set \<Rightarrow> string list \<Rightarrow> excecao + unit" where
  "validaBrinquedos_laco vistos [] = Inr ()"
| "validaBrinquedos_laco vistos (item # resto) =
    (if item \<in> vistos then Inl (Error Brinquedo_invalido)
     else if item \<notin> set brinquedosValidos then Inl (Error Brinquedo_invalido)
     else validaBrinquedos_laco (insert item vistos) resto)"

definition validaBrinquedos :: "string list \<Rightarrow> excecao + unit" where
  "validaBrinquedos lst = validaBrinquedos_laco {} lst"

fun validaAnimais_laco :: "string set \<Rightarrow> string list \<Rightarrow> excecao + unit" where
  "validaAnimais_laco vistos [] = Inr ()"
| "validaAnimais_laco vistos (nome # resto) =
    (if nome \<in> vistos then Inl (Error Animal_invalido)
     else if catalogo nome = Indefinido then Inl (Error Animal_invalido)
     else validaAnimais_laco (insert nome vistos) resto)"

definition validaAnimais :: "string list \<Rightarrow> excecao + unit" where
  "validaAnimais lst = validaAnimais_laco {} lst"

subsection \<open>Eligibility\<close>

text \<open>
  The scan of \<open>#contemSubsequencia\<close>, with the index \<open>i\<close> into \<open>padrao\<close>. Reading
  \<open>padrao[i]\<close> out of range gives \<open>undefined\<close>, which no item equals.
\<close>

fun contemSubsequencia_laco :: "string list \<Rightarrow> string list \<Rightarrow> nat \<Rightarrow> bool" where
  "contemSubsequencia_laco [] padrao i = False"
| "contemSubsequencia_laco (item # resto) padrao i =
    (if i < length padrao \<and> item = padrao ! i
     then (if i + 1 = length padrao then True
           else contemSubsequencia_laco resto padrao (i + 1))
     else contemSubsequencia_laco resto padrao i)"

text \<open>\<open>padrao\<close> is \<open>None\<close> when it is \<open>undefined\<close>: reading its \<open>length\<close> throws.\<close>

fun contemSubsequencia :: "string list \<Rightarrow> string list option \<Rightarrow> excecao + bool" where
  "contemSubsequencia lst None = Inl TypeError"
| "contemSubsequencia lst (Some padrao) =
    (if length padrao = 0 then Inr True
     else Inr (contemSubsequencia_laco lst padrao 0))"

record estado_pessoa =
  total_adotados :: int
  gatos :: int
  possuiOutroAnimal :: bool

type_synonym estado = "nat \<Rightarrow> estado_pessoa"

text \<open>\<open>idxPessoa\<close>, \<open>infoAnimal\<close> and \<open>estado\<close> are passed and not used, as in the source.\<close>

fun pessoaElegivelParaAnimal ::
  "nat \<Rightarrow> propriedade \<Rightarrow> string list option \<Rightarrow> string list \<Rightarrow> estado \<Rightarrow> string
    \<Rightarrow> excecao + bool" where
  "pessoaElegivelParaAnimal idxPessoa infoAnimal favs toysPessoa est nomeAnimal =
    (if nomeAnimal = ''Loco'' then
       (case favs of
          None \<Rightarrow> Inl TypeError
        | Some fs \<Rightarrow> Inr (list_all (\<lambda>bj. bj \<in> set toysPessoa) fs))
     else contemSubsequencia toysPessoa favs)"

subsection \<open>processaAdocoes\<close>

type_synonym destinos = "(string \<times> string) list"

definition estado_inicial :: estado where
  "estado_inicial = (\<lambda>_. \<lparr>total_adotados = 0, gatos = 0, possuiOutroAnimal = False\<rparr>)"

text \<open>\<open>info.tipo === 'gato'\<close>; an inherited property has no \<open>tipo\<close>.\<close>

fun e_gato :: "propriedade \<Rightarrow> bool" where
  "e_gato (Proprio info) = (tipo info = ''gato'')"
| "e_gato _ = False"

text \<open>\<open>info.brinquedos\<close>, for an \<open>info\<close> that is not \<open>undefined\<close>.\<close>

fun favoritos :: "propriedade \<Rightarrow> string list option" where
  "favoritos (Proprio info) = Some (brinquedos info)"
| "favoritos _ = None"

text \<open>
  One iteration of the first loop. The record \<open>candidatos\<close> of the source is written
  and never read, and is left out.
\<close>

definition passo ::
  "string list \<Rightarrow> string list \<Rightarrow> string \<Rightarrow> estado \<times> destinos \<Rightarrow> excecao + estado \<times> destinos" where
  "passo p1Toys p2Toys nome ed =
    (let est = fst ed; destino = snd ed; info = catalogo nome in
     if info = Indefinido then Inl TypeError
     else
       let fav = favoritos info in
       case pessoaElegivelParaAnimal 1 info fav p1Toys est nome of
         Inl e \<Rightarrow> Inl e
       | Inr pode1 \<Rightarrow>
      (case pessoaElegivelParaAnimal 2 info fav p2Toys est nome of
         Inl e \<Rightarrow> Inl e
       | Inr pode2 \<Rightarrow>
         if pode1 \<and> pode2 then Inr (est, AList.update nome ''abrigo'' destino)
         else
           (case (if pode1 then Some 1 else if pode2 then Some 2 else None) of
              None \<Rightarrow> Inr (est, AList.update nome ''abrigo'' destino)
            | Some vencedor \<Rightarrow>
                if total_adotados (est vencedor) \<ge> 3
                then Inr (est, AList.update nome ''abrigo'' destino)
                else if e_gato info \<and> gatos (est vencedor) \<ge> 1
                then Inr (est, AList.update nome ''abrigo'' destino)
                else
                  Inr (est(vencedor :=
                         (est vencedor)\<lparr>total_adotados := total_adotados (est vencedor) + 1,
                                        possuiOutroAnimal := True,
                                        gatos := (if e_gato info then gatos (est vencedor) + 1
                                                  else gatos (est vencedor))\<rparr>),
                       AList.update nome (if vencedor = 1 then ''pessoa 1'' else ''pessoa 2'')
                         destino))))"

fun alocacao ::
  "string list \<Rightarrow> string list \<Rightarrow> string list \<Rightarrow> estado \<times> destinos \<Rightarrow> excecao + estado \<times> destinos" where
  "alocacao p1Toys p2Toys [] ed = Inr ed"
| "alocacao p1Toys p2Toys (nome # resto) ed =
    (case passo p1Toys p2Toys nome ed of
       Inl e \<Rightarrow> Inl e
     | Inr ed' \<Rightarrow> alocacao p1Toys p2Toys resto ed')"

text \<open>One iteration of the second loop, over the keys of \<open>destino\<close>.\<close>

definition reconcilia_passo ::
  "string list \<Rightarrow> string list \<Rightarrow> string \<Rightarrow> estado \<times> destinos \<Rightarrow> estado \<times> destinos" where
  "reconcilia_passo p1Toys p2Toys nome ed =
    (let est = fst ed; destino = snd ed in
     if nome \<noteq> ''Loco'' then ed
     else
       case map_of destino nome of
         None \<Rightarrow> ed
       | Some quem \<Rightarrow>
           if quem = ''abrigo'' then ed
           else
             let vencedor = (if quem = ''pessoa 1'' then 1 else 2 :: nat);
                 toys = (if vencedor = 1 then p1Toys else p2Toys);
                 precisa = (case catalogo ''Loco'' of Proprio i \<Rightarrow> brinquedos i | _ \<Rightarrow> []);
                 temTodos = list_all (\<lambda>bj. bj \<in> set toys) precisa;
                 possuiCompanhia = (total_adotados (est vencedor) \<ge> 2)
             in if \<not> temTodos \<or> \<not> possuiCompanhia
                then (est(vencedor :=
                        (est vencedor)\<lparr>total_adotados := total_adotados (est vencedor) - 1\<rparr>),
                      AList.update nome ''abrigo'' destino)
                else ed)"

fun reconcilia ::
  "string list \<Rightarrow> string list \<Rightarrow> string list \<Rightarrow> estado \<times> destinos \<Rightarrow> estado \<times> destinos" where
  "reconcilia p1Toys p2Toys [] ed = ed"
| "reconcilia p1Toys p2Toys (nome # resto) ed =
    reconcilia p1Toys p2Toys resto (reconcilia_passo p1Toys p2Toys nome ed)"

text \<open>
  The whole method, with the final \<open>estado\<close> kept beside the returned \<open>destino\<close> so that
  the quota claims can speak about it.
\<close>

definition processaAdocoes_estado ::
  "string list \<Rightarrow> string list \<Rightarrow> string list \<Rightarrow> excecao + estado \<times> destinos" where
  "processaAdocoes_estado p1Toys p2Toys ordemAnimais =
    (case alocacao p1Toys p2Toys ordemAnimais (estado_inicial, []) of
       Inl e \<Rightarrow> Inl e
     | Inr ed \<Rightarrow> Inr (reconcilia p1Toys p2Toys (map fst (snd ed)) ed))"

definition processaAdocoes ::
  "string list \<Rightarrow> string list \<Rightarrow> string list \<Rightarrow> excecao + destinos" where
  "processaAdocoes p1Toys p2Toys ordemAnimais =
    (case processaAdocoes_estado p1Toys p2Toys ordemAnimais of
       Inl e \<Rightarrow> Inl e
     | Inr ed \<Rightarrow> Inr (snd ed))"

subsection \<open>encontraPessoas\<close>

text \<open>
  \<open>a.localeCompare(b)\<close> belongs to the engine. Only names that passed validation and the
  first loop reach the sort, that is names of the catalogue: capitalised words of
  unaccented letters, on which the collation is the alphabetical order, which for such
  words is the order of the code units.
\<close>

definition localeCompare :: "string \<Rightarrow> string \<Rightarrow> int" where
  "localeCompare a b = (if a < b then - 1 else if a = b then 0 else 1)"

text \<open>
  \<open>Array.prototype.sort\<close> with a comparator: a stable sort, here by insertion of each
  element, from the last one, before the first element that does not compare below it.
\<close>

fun insere :: "('a \<Rightarrow> 'a \<Rightarrow> int) \<Rightarrow> 'a \<Rightarrow> 'a list \<Rightarrow> 'a list" where
  "insere cmp x [] = [x]"
| "insere cmp x (y # ys) = (if cmp x y \<le> 0 then x # y # ys else y # insere cmp x ys)"

fun ordena :: "('a \<Rightarrow> 'a \<Rightarrow> int) \<Rightarrow> 'a list \<Rightarrow> 'a list" where
  "ordena cmp [] = []"
| "ordena cmp (x # xs) = insere cmp x (ordena cmp xs)"

definition formata :: "destinos \<Rightarrow> string \<Rightarrow> string" where
  "formata adocoes nome = nome @ '' - '' @ the (map_of adocoes nome)"

text \<open>The body of the \<open>try\<close> block.\<close>

definition encontraPessoas_corpo :: "jsvalor \<Rightarrow> jsvalor \<Rightarrow> jsvalor \<Rightarrow> excecao + string list" where
  "encontraPessoas_corpo pessoa1Str pessoa2Str ordemAnimaisStr =
    (let pessoa1Toys = parseLista pessoa1Str;
         pessoa2Toys = parseLista pessoa2Str;
         ordemAnimais = parseLista ordemAnimaisStr in
     case validaBrinquedos pessoa1Toys of Inl e \<Rightarrow> Inl e | Inr _ \<Rightarrow>
    (case validaBrinquedos pessoa2Toys of Inl e \<Rightarrow> Inl e | Inr _ \<Rightarrow>
    (case validaAnimais ordemAnimais of Inl e \<Rightarrow> Inl e | Inr _ \<Rightarrow>
    (case processaAdocoes pessoa1Toys pessoa2Toys ordemAnimais of Inl e \<Rightarrow> Inl e
     | Inr adocoes \<Rightarrow>
         Inr (map (formata adocoes) (ordena localeCompare (map fst adocoes)))))))"

text \<open>The \<open>catch\<close>: the two messages pass, every other exception becomes the toy error.\<close>

definition encontraPessoas :: "jsvalor \<Rightarrow> jsvalor \<Rightarrow> jsvalor \<Rightarrow> resultado" where
  "encontraPessoas pessoa1Str pessoa2Str ordemAnimaisStr =
    (case encontraPessoas_corpo pessoa1Str pessoa2Str ordemAnimaisStr of
       Inr l \<Rightarrow> lista l
     | Inl (Error m) \<Rightarrow> erro m
     | Inl TypeError \<Rightarrow> erro Brinquedo_invalido)"

subsection \<open>Vocabulary of the claims\<close>

text \<open>The label written into \<open>destino\<close> for the adopter \<open>vencedor\<close>.\<close>

definition rotulo :: "nat \<Rightarrow> string" where
  "rotulo vencedor = (if vencedor = 1 then ''pessoa 1'' else ''pessoa 2'')"

text \<open>The entries of \<open>destino\<close> placed with adopter \<open>k\<close>, and the cats among them.\<close>

definition colocados :: "nat \<Rightarrow> destinos \<Rightarrow> (string \<times> string) list" where
  "colocados k destino = filter (\<lambda>nq. snd nq = rotulo k) destino"

definition gatos_colocados :: "nat \<Rightarrow> destinos \<Rightarrow> (string \<times> string) list" where
  "gatos_colocados k destino =
     filter (\<lambda>nq. snd nq = rotulo k \<and> e_gato (catalogo (fst nq))) destino"

text \<open>The inventory of adopter \<open>k\<close>.\<close>

definition toys_de :: "nat \<Rightarrow> string list \<Rightarrow> string list \<Rightarrow> string list" where
  "toys_de k p1Toys p2Toys = (if k = 1 then p1Toys else p2Toys)"

text \<open>The eligibility of adopter \<open>k\<close> for the animal \<open>nome\<close>, as the first loop computes it.\<close>

definition pode :: "nat \<Rightarrow> string list \<Rightarrow> string \<Rightarrow> excecao + bool" where
  "pode k toys nome =
     pessoaElegivelParaAnimal k (catalogo nome) (favoritos (catalogo nome)) toys
       estado_inicial nome"

section \<open>Eligibility\<close>

text \<open>
  The scan from index \<open>i\<close> succeeds exactly when the rest of the pattern is a
  subsequence of the list: the greedy match of the first pending toy loses nothing.
\<close>

lemma contemSubsequencia_laco_subseq:
  "i < length padrao \<Longrightarrow>
   contemSubsequencia_laco lst padrao i = subseq (drop i padrao) lst"
proof (induction lst arbitrary: i)
  case Nil
  then show ?case by simp
next
  case (Cons item resto)
  from Cons.prems have d: "drop i padrao = padrao ! i # drop (Suc i) padrao"
    by (simp add: Cons_nth_drop_Suc)
  show ?case
  proof (cases "item = padrao ! i")
    case True
    show ?thesis
    proof (cases "Suc i = length padrao")
      case True
      with \<open>item = padrao ! i\<close> Cons.prems d show ?thesis by simp
    next
      case False
      with Cons.prems have "Suc i < length padrao" by simp
      from Cons.IH [OF this] \<open>item = padrao ! i\<close> Cons.prems d False show ?thesis by simp
    qed
  next
    case False
    with Cons.IH [OF Cons.prems] Cons.prems d show ?thesis by simp
  qed
qed

lemma contemSubsequencia_subseq:
  "contemSubsequencia lst (Some padrao) = Inr (subseq padrao lst)"
  by (cases padrao) (simp_all add: contemSubsequencia_laco_subseq del: contemSubsequencia_laco.simps)

text \<open>
  Claim C1. For an animal whose name is not \<open>Loco\<close> and any inventory, the eligibility
  test returns true exactly when the favourite toys occur in the inventory as a
  subsequence (same order, gaps allowed); with no favourite toy it returns true.
\<close>

theorem C1_default_rule_is_subsequence:
  assumes "nomeAnimal \<noteq> ''Loco''"
  shows "pessoaElegivelParaAnimal idxPessoa infoAnimal (Some favs) toysPessoa est nomeAnimal
           = Inr (subseq favs toysPessoa)
       \<and> pessoaElegivelParaAnimal idxPessoa infoAnimal (Some []) toysPessoa est nomeAnimal
           = Inr True"
  using assms by (simp add: contemSubsequencia_subseq del: contemSubsequencia.simps)

theorem C1_default_rule_is_subsequence_witness:
  "''Rex'' \<noteq> ''Loco''
   \<and> pessoaElegivelParaAnimal 1 (catalogo ''Rex'') (Some [''RATO'', ''BOLA''])
        [''RATO'', ''BOLA''] estado_inicial ''Rex'' = Inr True
   \<and> pessoaElegivelParaAnimal 1 (catalogo ''Rex'') (Some [''RATO'', ''BOLA''])
        [''BOLA'', ''RATO''] estado_inicial ''Rex'' = Inr False
   \<and> pessoaElegivelParaAnimal 1 (catalogo ''Rex'') (Some []) [] estado_inicial ''Rex'' = Inr True"
  using C1_default_rule_is_subsequence [of "''Rex''" 1 "catalogo ''Rex''" "[''RATO'', ''BOLA'']"
          "[''RATO'', ''BOLA'']" estado_inicial]
        C1_default_rule_is_subsequence [of "''Rex''" 1 "catalogo ''Rex''" "[''RATO'', ''BOLA'']"
          "[''BOLA'', ''RATO'']" estado_inicial]
        C1_default_rule_is_subsequence [of "''Rex''" 1 "catalogo ''Rex''" "[]" "[]" estado_inicial]
  by simp

text \<open>
  Claim C2. For \<open>Loco\<close> and any inventory, the eligibility test returns true exactly
  when every favourite toy is somewhere in the inventory: containment of sets, whatever
  the order.
\<close>

theorem C2_loco_rule_is_set_containment:
  "pessoaElegivelParaAnimal idxPessoa infoAnimal (Some favs) toysPessoa est ''Loco''
     = Inr (set favs \<subseteq> set toysPessoa)"
  by (auto simp: list_all_iff)

section \<open>The allocation pass\<close>

text \<open>
  Eligibility does not read the running state, so the two tests of an iteration are
  \<open>pode 1\<close> and \<open>pode 2\<close>. An iteration that returns either leaves the state alone
  and writes \<open>abrigo\<close>, or gives the animal to the one eligible adopter, who was below
  both quotas.
\<close>

lemma pode_estado:
  "pessoaElegivelParaAnimal k (catalogo nome) (favoritos (catalogo nome)) toys est nome
     = pode k toys nome"
  by (simp add: pode_def)

lemma passo_casos:
  assumes "passo p1Toys p2Toys nome (est, destino) = Inr (est', destino')"
  shows "(est' = est \<and> destino' = AList.update nome ''abrigo'' destino)
    \<or> (\<exists>v. (v = 1 \<or> v = 2) \<and> total_adotados (est v) < 3
          \<and> (e_gato (catalogo nome) \<longrightarrow> gatos (est v) < 1)
          \<and> pode v (toys_de v p1Toys p2Toys) nome = Inr True
          \<and> est' = est(v := (est v)\<lparr>total_adotados := total_adotados (est v) + 1,
                 possuiOutroAnimal := True,
                 gatos := (if e_gato (catalogo nome) then gatos (est v) + 1 else gatos (est v))\<rparr>)
          \<and> destino' = AList.update nome (rotulo v) destino)"
proof -
  obtain b1 b2 where b: "pode 1 p1Toys nome = Inr b1" "pode 2 p2Toys nome = Inr b2"
    using assms
    by (auto simp: passo_def Let_def pode_estado simp del: pessoaElegivelParaAnimal.simps
        split: sum.splits if_splits)
  show ?thesis
  proof (cases "b1 \<and> b2")
    case True
    with assms b show ?thesis
      by (auto simp: passo_def Let_def pode_estado simp del: pessoaElegivelParaAnimal.simps
        split: if_splits)
  next
    case False
    show ?thesis
    proof (cases b1)
      case True
      with False have "\<not> b2" by simp
      with True assms b show ?thesis
        apply (simp add: passo_def Let_def pode_estado del: pessoaElegivelParaAnimal.simps
            split: if_splits)
        apply (auto simp: rotulo_def toys_de_def intro!: exI [of _ 1])
        done
    next
      case b1: False
      show ?thesis
      proof (cases b2)
        case True
        with b1 assms b show ?thesis
          apply (simp add: passo_def Let_def pode_estado del: pessoaElegivelParaAnimal.simps
              split: if_splits)
          apply (auto simp: rotulo_def toys_de_def intro!: exI [of _ 2])
          done
      next
        case False
        with b1 assms b show ?thesis
          by (simp add: passo_def Let_def pode_estado del: pessoaElegivelParaAnimal.simps
              split: if_splits)
      qed
    qed
  qed
qed

lemma passo_destino:
  "passo p1Toys p2Toys nome (est, destino) = Inr (est', destino') \<Longrightarrow>
   \<exists>quem. destino' = AList.update nome quem destino
     \<and> quem \<in> {''abrigo'', ''pessoa 1'', ''pessoa 2''}"
  by (drule passo_casos) (auto simp: rotulo_def)

lemma passo_cotas:
  assumes "passo p1Toys p2Toys nome (est, destino) = Inr (est', destino')"
    and "\<forall>k. total_adotados (est k) \<le> 3 \<and> gatos (est k) \<le> 1"
  shows "total_adotados (est' k) \<le> 3 \<and> gatos (est' k) \<le> 1"
  using passo_casos [OF assms(1)] assms(2) by auto

lemma passo_empate:
  assumes "pode 1 p1Toys nome = Inr True" and "pode 2 p2Toys nome = Inr True"
  shows "passo p1Toys p2Toys nome (est, destino) = Inr (est, AList.update nome ''abrigo'' destino)"
proof -
  have "catalogo nome \<noteq> Indefinido"
    using assms(1) by (auto simp: pode_def split: if_splits)
  with assms show ?thesis
    by (simp add: passo_def Let_def pode_estado del: pessoaElegivelParaAnimal.simps)
qed

lemma alocacao_Cons_Inr:
  assumes "alocacao p1Toys p2Toys (nome # resto) (est, destino) = Inr (est', destino')"
  obtains est1 destino1 where
    "passo p1Toys p2Toys nome (est, destino) = Inr (est1, destino1)"
    "alocacao p1Toys p2Toys resto (est1, destino1) = Inr (est', destino')"
  using assms by (auto split: sum.splits)

lemma alocacao_cotas:
  "alocacao p1Toys p2Toys ordem (est, destino) = Inr (est', destino') \<Longrightarrow>
   \<forall>k. total_adotados (est k) \<le> 3 \<and> gatos (est k) \<le> 1 \<Longrightarrow>
   total_adotados (est' k) \<le> 3 \<and> gatos (est' k) \<le> 1"
proof (induction ordem arbitrary: est destino)
  case Nil
  then show ?case by simp
next
  case (Cons nome resto)
  from Cons.prems(1) obtain est1 destino1 where
    p: "passo p1Toys p2Toys nome (est, destino) = Inr (est1, destino1)"
    and r: "alocacao p1Toys p2Toys resto (est1, destino1) = Inr (est', destino')"
    by (rule alocacao_Cons_Inr)
  from passo_cotas [OF p Cons.prems(2)]
  have "\<forall>k. total_adotados (est1 k) \<le> 3 \<and> gatos (est1 k) \<le> 1" by blast
  from Cons.IH [OF r this] show ?case .
qed

lemma alocacao_empate:
  assumes "pode 1 p1Toys nome = Inr True" and "pode 2 p2Toys nome = Inr True"
  shows "alocacao p1Toys p2Toys ordem (est, destino) = Inr (est', destino') \<Longrightarrow>
   nome \<in> set ordem \<or> map_of destino nome = Some ''abrigo'' \<Longrightarrow>
   map_of destino' nome = Some ''abrigo''"
proof (induction ordem arbitrary: est destino)
  case Nil
  then show ?case by simp
next
  case (Cons x resto)
  from Cons.prems(1) obtain est1 destino1 where
    p: "passo p1Toys p2Toys x (est, destino) = Inr (est1, destino1)"
    and r: "alocacao p1Toys p2Toys resto (est1, destino1) = Inr (est', destino')"
    by (rule alocacao_Cons_Inr)
  have "nome \<in> set resto \<or> map_of destino1 nome = Some ''abrigo''"
  proof (cases "x = nome")
    case True
    have "passo p1Toys p2Toys nome (est, destino) = Inr (est, AList.update nome ''abrigo'' destino)"
      using assms by (rule passo_empate)
    with p True have "destino1 = AList.update nome ''abrigo'' destino" by simp
    then show ?thesis by (simp add: update_conv')
  next
    case False
    from passo_destino [OF p] obtain quem where "destino1 = AList.update x quem destino" by blast
    with False Cons.prems(2) show ?thesis by (auto simp: update_conv')
  qed
  from Cons.IH [OF r this] show ?case .
qed

lemma reconcilia_passo_abrigo:
  "map_of (snd ed) nome = Some ''abrigo'' \<Longrightarrow>
   map_of (snd (reconcilia_passo p1Toys p2Toys x ed)) nome = Some ''abrigo''"
  by (auto simp: reconcilia_passo_def Let_def update_conv' split: option.splits)

lemma reconcilia_abrigo:
  "map_of (snd ed) nome = Some ''abrigo'' \<Longrightarrow>
   map_of (snd (reconcilia p1Toys p2Toys chaves ed)) nome = Some ''abrigo''"
  by (induction chaves arbitrary: ed) (simp_all add: reconcilia_passo_abrigo)

lemma reconcilia_passo_cotas:
  "total_adotados (fst (reconcilia_passo p1Toys p2Toys x ed) k) \<le> total_adotados (fst ed k)
   \<and> gatos (fst (reconcilia_passo p1Toys p2Toys x ed) k) = gatos (fst ed k)"
  by (auto simp: reconcilia_passo_def Let_def split: option.splits)

lemma reconcilia_cotas:
  "total_adotados (fst (reconcilia p1Toys p2Toys chaves ed) k) \<le> total_adotados (fst ed k)
   \<and> gatos (fst (reconcilia p1Toys p2Toys chaves ed) k) = gatos (fst ed k)"
proof (induction chaves arbitrary: ed)
  case Nil
  then show ?case by simp
next
  case (Cons x chaves)
  from Cons.IH [of "reconcilia_passo p1Toys p2Toys x ed"]
    reconcilia_passo_cotas [of p1Toys p2Toys x ed k]
  show ?case by simp
qed

lemma processaAdocoes_Inr:
  assumes "processaAdocoes p1Toys p2Toys ordem = Inr adocoes"
  obtains est destino where
    "alocacao p1Toys p2Toys ordem (estado_inicial, []) = Inr (est, destino)"
    "adocoes = snd (reconcilia p1Toys p2Toys (map fst destino) (est, destino))"
  using assms
  by (auto simp: processaAdocoes_def processaAdocoes_estado_def split: sum.splits)

text \<open>
  Claim C4. When both adopters are eligible for an animal, the iteration that processes
  it writes \<open>abrigo\<close> and returns the running state as it was, from any state and
  any \<open>destino\<close>, hence at any position of the order; and the animal is in the shelter
  in the returned \<open>destino\<close> of every run whose order contains it.
\<close>

theorem C4_tie_goes_to_shelter:
  assumes "pode 1 p1Toys nome = Inr True" and "pode 2 p2Toys nome = Inr True"
  shows "passo p1Toys p2Toys nome (est, destino)
           = Inr (est, AList.update nome ''abrigo'' destino)
       \<and> (processaAdocoes p1Toys p2Toys ordem = Inr adocoes \<and> nome \<in> set ordem
            \<longrightarrow> map_of adocoes nome = Some ''abrigo'')"
proof (intro conjI impI)
  show "passo p1Toys p2Toys nome (est, destino)
           = Inr (est, AList.update nome ''abrigo'' destino)"
    using assms by (rule passo_empate)
next
  assume a: "processaAdocoes p1Toys p2Toys ordem = Inr adocoes \<and> nome \<in> set ordem"
  then obtain est1 destino1 where
    al: "alocacao p1Toys p2Toys ordem (estado_inicial, []) = Inr (est1, destino1)"
    and ad: "adocoes = snd (reconcilia p1Toys p2Toys (map fst destino1) (est1, destino1))"
    by (auto elim: processaAdocoes_Inr)
  from a have "nome \<in> set ordem \<or> map_of [] nome = Some ''abrigo''" by simp
  from alocacao_empate [OF assms al this]
  have "map_of (snd (est1, destino1)) nome = Some ''abrigo''" by simp
  from reconcilia_abrigo [OF this] ad show "map_of adocoes nome = Some ''abrigo''" by simp
qed

text \<open>The definitions that evaluate a run on concrete inventories.\<close>

lemmas avalia =
  pode_def catalogo_def catalogo_entradas_def object_prototype_chaves_def
  passo_def reconcilia_passo_def processaAdocoes_def processaAdocoes_estado_def
  estado_inicial_def

theorem C4_tie_goes_to_shelter_witness:
  "pode 1 [''RATO'', ''BOLA''] ''Zero'' = Inr True
   \<and> pode 2 [''RATO'', ''BOLA''] ''Zero'' = Inr True
   \<and> processaAdocoes [''RATO'', ''BOLA''] [''RATO'', ''BOLA''] [''Rex'', ''Zero'']
        = Inr [(''Rex'', ''abrigo''), (''Zero'', ''abrigo'')]
   \<and> ''Zero'' \<in> set [''Rex'', ''Zero'']
   \<and> map_of [(''Rex'', ''abrigo''), (''Zero'', ''abrigo'')] ''Zero'' = Some ''abrigo''
   \<and> passo [''RATO'', ''BOLA''] [''RATO'', ''BOLA''] ''Zero'' (estado_inicial, [(''Rex'', ''abrigo'')])
        = Inr (estado_inicial, [(''Rex'', ''abrigo''), (''Zero'', ''abrigo'')])"
proof -
  have p1: "pode 1 [''RATO'', ''BOLA''] ''Zero'' = Inr True"
    by (simp add: avalia)
  have p2: "pode 2 [''RATO'', ''BOLA''] ''Zero'' = Inr True"
    by (simp add: avalia)
  have r: "processaAdocoes [''RATO'', ''BOLA''] [''RATO'', ''BOLA''] [''Rex'', ''Zero'']
        = Inr [(''Rex'', ''abrigo''), (''Zero'', ''abrigo'')]"
    by (simp add: avalia)
  from C4_tie_goes_to_shelter [OF p1 p2, of estado_inicial "[(''Rex'', ''abrigo'')]"
      "[''Rex'', ''Zero'']" "[(''Rex'', ''abrigo''), (''Zero'', ''abrigo'')]"] p1 p2 r
  show ?thesis by simp
qed

section \<open>Quotas\<close>

text \<open>
  Writing a key of \<open>destino\<close> adds at most one entry to those that satisfy a
  predicate, and none when the new entry does not satisfy it.
\<close>

lemma filter_update_le:
  "length (filter P (AList.update k v al)) \<le> length (filter P al) + (if P (k, v) then 1 else 0)"
  by (induction al) auto

lemma rotulo_abrigo: "rotulo k \<noteq> ''abrigo''"
  by (simp add: rotulo_def)

lemma colocados_update_abrigo:
  "length (colocados k (AList.update nome ''abrigo'' destino)) \<le> length (colocados k destino)"
  using filter_update_le [of "\<lambda>nq. snd nq = rotulo k" nome "''abrigo''" destino] rotulo_abrigo [of k]
  by (simp add: colocados_def)

lemma gatos_colocados_update_abrigo:
  "length (gatos_colocados k (AList.update nome ''abrigo'' destino))
     \<le> length (gatos_colocados k destino)"
  using filter_update_le [of "\<lambda>nq. snd nq = rotulo k \<and> e_gato (catalogo (fst nq))" nome "''abrigo''" destino]
    rotulo_abrigo [of k]
  by (simp add: gatos_colocados_def)

lemma colocados_update_rotulo:
  assumes "k = 1 \<or> k = 2" and "v = 1 \<or> v = 2"
  shows "length (colocados k (AList.update nome (rotulo v) destino))
     \<le> length (colocados k destino) + (if k = v then 1 else 0)"
proof -
  have "(rotulo v = rotulo k) = (k = v)"
    using assms by (auto simp: rotulo_def)
  with filter_update_le [of "\<lambda>nq. snd nq = rotulo k" nome "rotulo v" destino]
  show ?thesis by (simp add: colocados_def)
qed

lemma gatos_colocados_update_rotulo:
  assumes "k = 1 \<or> k = 2" and "v = 1 \<or> v = 2"
  shows "length (gatos_colocados k (AList.update nome (rotulo v) destino))
     \<le> length (gatos_colocados k destino) + (if k = v \<and> e_gato (catalogo nome) then 1 else 0)"
proof -
  have "(rotulo v = rotulo k) = (k = v)"
    using assms by (auto simp: rotulo_def)
  with filter_update_le [of "\<lambda>nq. snd nq = rotulo k \<and> e_gato (catalogo (fst nq))" nome "rotulo v" destino]
  show ?thesis by (simp add: gatos_colocados_def)
qed

lemma passo_contagem:
  assumes p: "passo p1Toys p2Toys nome (est, destino) = Inr (est', destino')"
    and k: "k = 1 \<or> k = 2"
    and i: "int (length (colocados k destino)) \<le> total_adotados (est k)"
           "int (length (gatos_colocados k destino)) \<le> gatos (est k)"
  shows "int (length (colocados k destino')) \<le> total_adotados (est' k)
       \<and> int (length (gatos_colocados k destino')) \<le> gatos (est' k)"
proof -
  from passo_casos [OF p] consider
    (abrigo) "est' = est" "destino' = AList.update nome ''abrigo'' destino"
  | (adota) v where "v = 1 \<or> v = 2"
      "est' = est(v := (est v)\<lparr>total_adotados := total_adotados (est v) + 1,
                 possuiOutroAnimal := True,
                 gatos := (if e_gato (catalogo nome) then gatos (est v) + 1 else gatos (est v))\<rparr>)"
      "destino' = AList.update nome (rotulo v) destino"
    by blast
  then show ?thesis
  proof cases
    case abrigo
    from colocados_update_abrigo [of k nome destino] gatos_colocados_update_abrigo [of k nome destino]
      i abrigo
    show ?thesis by simp
  next
    case adota
    note c = colocados_update_rotulo [OF k adota(1), of nome destino]
    note g = gatos_colocados_update_rotulo [OF k adota(1), of nome destino]
    show ?thesis
    proof (cases "k = v")
      case True
      show ?thesis
      proof (cases "e_gato (catalogo nome)")
        case True
        with \<open>k = v\<close> c g i adota(2,3) show ?thesis by simp
      next
        case False
        with \<open>k = v\<close> c g i adota(2,3) show ?thesis by simp
      qed
    next
      case False
      with c g i adota(2,3) show ?thesis by simp
    qed
  qed
qed

lemma alocacao_contagem:
  "alocacao p1Toys p2Toys ordem (est, destino) = Inr (est', destino') \<Longrightarrow>
   k = 1 \<or> k = 2 \<Longrightarrow>
   int (length (colocados k destino)) \<le> total_adotados (est k) \<Longrightarrow>
   int (length (gatos_colocados k destino)) \<le> gatos (est k) \<Longrightarrow>
   int (length (colocados k destino')) \<le> total_adotados (est' k)
   \<and> int (length (gatos_colocados k destino')) \<le> gatos (est' k)"
proof (induction ordem arbitrary: est destino)
  case Nil
  then show ?case by simp
next
  case (Cons nome resto)
  from Cons.prems(1) obtain est1 destino1 where
    p: "passo p1Toys p2Toys nome (est, destino) = Inr (est1, destino1)"
    and r: "alocacao p1Toys p2Toys resto (est1, destino1) = Inr (est', destino')"
    by (rule alocacao_Cons_Inr)
  from passo_contagem [OF p Cons.prems(2) Cons.prems(3) Cons.prems(4)]
  have "int (length (colocados k destino1)) \<le> total_adotados (est1 k)"
    "int (length (gatos_colocados k destino1)) \<le> gatos (est1 k)" by simp_all
  from Cons.IH [OF r Cons.prems(2) this] show ?case .
qed

lemma reconcilia_passo_casos:
  "reconcilia_passo p1Toys p2Toys x ed = ed
   \<or> (\<exists>v. reconcilia_passo p1Toys p2Toys x ed =
          ((fst ed)(v := (fst ed v)\<lparr>total_adotados := total_adotados (fst ed v) - 1\<rparr>),
           AList.update ''Loco'' ''abrigo'' (snd ed)))"
  by (auto simp: reconcilia_passo_def Let_def split: option.splits)

lemma reconcilia_passo_colocados:
  "length (colocados k (snd (reconcilia_passo p1Toys p2Toys x ed))) \<le> length (colocados k (snd ed))
   \<and> length (gatos_colocados k (snd (reconcilia_passo p1Toys p2Toys x ed)))
       \<le> length (gatos_colocados k (snd ed))"
  using colocados_update_abrigo [of k "''Loco''" "snd ed"]
    gatos_colocados_update_abrigo [of k "''Loco''" "snd ed"]
    reconcilia_passo_casos [of p1Toys p2Toys x ed]
  by auto

lemma reconcilia_colocados:
  "length (colocados k (snd (reconcilia p1Toys p2Toys chaves ed))) \<le> length (colocados k (snd ed))
   \<and> length (gatos_colocados k (snd (reconcilia p1Toys p2Toys chaves ed)))
       \<le> length (gatos_colocados k (snd ed))"
proof (induction chaves arbitrary: ed)
  case Nil
  then show ?case by simp
next
  case (Cons x chaves)
  from Cons.IH [of "reconcilia_passo p1Toys p2Toys x ed"]
    reconcilia_passo_colocados [of k p1Toys p2Toys x ed]
  show ?case by simp
qed

lemma passo_cota_cheia:
  assumes v: "v = 1 \<or> v = 2"
    and s: "pode v (toys_de v p1Toys p2Toys) nome = Inr True"
    and n: "pode (3 - v) (toys_de (3 - v) p1Toys p2Toys) nome = Inr False"
    and c: "total_adotados (est v) \<ge> 3 \<or> (e_gato (catalogo nome) \<and> gatos (est v) \<ge> 1)"
  shows "passo p1Toys p2Toys nome (est, destino) = Inr (est, AList.update nome ''abrigo'' destino)"
proof -
  have i: "catalogo nome \<noteq> Indefinido"
    using s by (auto simp: pode_def split: if_splits)
  from v show ?thesis
  proof
    assume "v = 1"
    with s n have "pode 1 p1Toys nome = Inr True" "pode 2 p2Toys nome = Inr False"
      by (simp_all add: toys_de_def)
    with i c \<open>v = 1\<close> show ?thesis
      by (auto simp: passo_def Let_def pode_estado simp del: pessoaElegivelParaAnimal.simps)
  next
    assume "v = 2"
    with s n have "pode 1 p1Toys nome = Inr False" "pode 2 p2Toys nome = Inr True"
      by (simp_all add: toys_de_def)
    with i c \<open>v = 2\<close> show ?thesis
      by (auto simp: passo_def Let_def pode_estado simp del: pessoaElegivelParaAnimal.simps)
  qed
qed

lemma estado_inicial_cotas:
  "total_adotados (estado_inicial k) = 0 \<and> gatos (estado_inicial k) = 0"
  by (simp add: estado_inicial_def)

lemma processaAdocoes_estado_Inr:
  assumes "processaAdocoes_estado p1Toys p2Toys ordem = Inr (est', adocoes)"
  obtains est destino where
    "alocacao p1Toys p2Toys ordem (estado_inicial, []) = Inr (est, destino)"
    "(est', adocoes) = reconcilia p1Toys p2Toys (map fst destino) (est, destino)"
  using assms
  by (auto simp: processaAdocoes_estado_def split: sum.splits)

text \<open>
  Claim C5. After any number of iterations of the first loop, and at the end of the
  method, the \<open>total\<close> of each adopter is at most 3 and the \<open>gatos\<close> at most 1; the
  returned \<open>destino\<close> gives each adopter at most three animals and at most one cat. The
  caps hold because the only eligible adopter of an animal does not get it, and nothing
  in the state changes, when that adopter's \<open>total\<close> is already 3 or the animal is a
  cat and the adopter already has one.
\<close>

theorem C5_quota_caps:
  "(alocacao p1Toys p2Toys ordem (estado_inicial, []) = Inr (est, destino)
      \<longrightarrow> total_adotados (est k) \<le> 3 \<and> gatos (est k) \<le> 1)
   \<and> (processaAdocoes_estado p1Toys p2Toys ordem = Inr (est', adocoes)
      \<longrightarrow> total_adotados (est' k) \<le> 3 \<and> gatos (est' k) \<le> 1
          \<and> (k = 1 \<or> k = 2
               \<longrightarrow> length (colocados k adocoes) \<le> 3 \<and> length (gatos_colocados k adocoes) \<le> 1))
   \<and> ((v = 1 \<or> v = 2)
       \<and> pode v (toys_de v p1Toys p2Toys) nome = Inr True
       \<and> pode (3 - v) (toys_de (3 - v) p1Toys p2Toys) nome = Inr False
       \<and> (total_adotados (est0 v) \<ge> 3 \<or> (e_gato (catalogo nome) \<and> gatos (est0 v) \<ge> 1))
      \<longrightarrow> passo p1Toys p2Toys nome (est0, destino0)
            = Inr (est0, AList.update nome ''abrigo'' destino0))"
proof (intro conjI impI)
  assume a: "alocacao p1Toys p2Toys ordem (estado_inicial, []) = Inr (est, destino)"
  have "\<forall>k. total_adotados (estado_inicial k) \<le> 3 \<and> gatos (estado_inicial k) \<le> 1"
    by (simp add: estado_inicial_cotas)
  from alocacao_cotas [OF a this]
  show "total_adotados (est k) \<le> 3" "gatos (est k) \<le> 1" by simp_all
next
  assume "processaAdocoes_estado p1Toys p2Toys ordem = Inr (est', adocoes)"
  then obtain est1 destino1 where
    a: "alocacao p1Toys p2Toys ordem (estado_inicial, []) = Inr (est1, destino1)"
    and r: "(est', adocoes) = reconcilia p1Toys p2Toys (map fst destino1) (est1, destino1)"
    by (rule processaAdocoes_estado_Inr)
  have "\<forall>k. total_adotados (estado_inicial k) \<le> 3 \<and> gatos (estado_inicial k) \<le> 1"
    by (simp add: estado_inicial_cotas)
  from alocacao_cotas [OF a this]
  have c: "total_adotados (est1 k) \<le> 3" "gatos (est1 k) \<le> 1" by simp_all
  from reconcilia_cotas [of p1Toys p2Toys "map fst destino1" "(est1, destino1)" k] r [symmetric]
  have d: "total_adotados (est' k) \<le> total_adotados (est1 k)" "gatos (est' k) = gatos (est1 k)"
    by simp_all
  from c d show "total_adotados (est' k) \<le> 3" "gatos (est' k) \<le> 1" by simp_all
  assume k: "k = 1 \<or> k = 2"
  have "int (length (colocados k [])) \<le> total_adotados (estado_inicial k)"
    "int (length (gatos_colocados k [])) \<le> gatos (estado_inicial k)"
    by (simp_all add: estado_inicial_cotas colocados_def gatos_colocados_def)
  from alocacao_contagem [OF a k this]
  have e: "int (length (colocados k destino1)) \<le> total_adotados (est1 k)"
    "int (length (gatos_colocados k destino1)) \<le> gatos (est1 k)" by simp_all
  from reconcilia_colocados [of k p1Toys p2Toys "map fst destino1" "(est1, destino1)"] r [symmetric]
  have f: "length (colocados k adocoes) \<le> length (colocados k destino1)"
    "length (gatos_colocados k adocoes) \<le> length (gatos_colocados k destino1)"
    by simp_all
  from c e f show "length (colocados k adocoes) \<le> 3" "length (gatos_colocados k adocoes) \<le> 1"
    by linarith+
next
  assume "(v = 1 \<or> v = 2)
       \<and> pode v (toys_de v p1Toys p2Toys) nome = Inr True
       \<and> pode (3 - v) (toys_de (3 - v) p1Toys p2Toys) nome = Inr False
       \<and> (total_adotados (est0 v) \<ge> 3 \<or> (e_gato (catalogo nome) \<and> gatos (est0 v) \<ge> 1))"
  then show "passo p1Toys p2Toys nome (est0, destino0)
            = Inr (est0, AList.update nome ''abrigo'' destino0)"
    by (intro passo_cota_cheia [of v]) simp_all
qed

theorem C5_quota_caps_witness:
  "alocacao [''LASER'', ''RATO'', ''BOLA'', ''CAIXA'', ''NOVELO''] [] [''Rex'', ''Bebe'', ''Bola'']
      (estado_inicial, [])
     = Inr (estado_inicial(1 := \<lparr>total_adotados = 3, gatos = 0, possuiOutroAnimal = True\<rparr>),
            [(''Rex'', ''pessoa 1''), (''Bebe'', ''pessoa 1''), (''Bola'', ''pessoa 1'')])
   \<and> processaAdocoes_estado [''LASER'', ''RATO'', ''BOLA'', ''CAIXA'', ''NOVELO''] []
        [''Rex'', ''Bebe'', ''Bola'']
     = Inr (estado_inicial(1 := \<lparr>total_adotados = 3, gatos = 0, possuiOutroAnimal = True\<rparr>),
            [(''Rex'', ''pessoa 1''), (''Bebe'', ''pessoa 1''), (''Bola'', ''pessoa 1'')])
   \<and> length (colocados 1 [(''Rex'', ''pessoa 1''), (''Bebe'', ''pessoa 1''), (''Bola'', ''pessoa 1'')]) \<le> 3
   \<and> pode 1 [''LASER'', ''RATO'', ''BOLA'', ''CAIXA'', ''NOVELO''] ''Zero'' = Inr True
   \<and> pode 2 [] ''Zero'' = Inr False
   \<and> passo [''LASER'', ''RATO'', ''BOLA'', ''CAIXA'', ''NOVELO''] [] ''Zero''
        (estado_inicial(1 := \<lparr>total_adotados = 3, gatos = 0, possuiOutroAnimal = True\<rparr>),
         [(''Rex'', ''pessoa 1''), (''Bebe'', ''pessoa 1''), (''Bola'', ''pessoa 1'')])
     = Inr (estado_inicial(1 := \<lparr>total_adotados = 3, gatos = 0, possuiOutroAnimal = True\<rparr>),
            [(''Rex'', ''pessoa 1''), (''Bebe'', ''pessoa 1''), (''Bola'', ''pessoa 1''),
             (''Zero'', ''abrigo'')])"
proof -
  let ?p1 = "[''LASER'', ''RATO'', ''BOLA'', ''CAIXA'', ''NOVELO'']"
  let ?e = "estado_inicial(1 := \<lparr>total_adotados = 3, gatos = 0, possuiOutroAnimal = True\<rparr>)"
  let ?d = "[(''Rex'', ''pessoa 1''), (''Bebe'', ''pessoa 1''), (''Bola'', ''pessoa 1'')]"
  have a: "alocacao ?p1 [] [''Rex'', ''Bebe'', ''Bola''] (estado_inicial, []) = Inr (?e, ?d)"
    by (simp add: avalia)
  have r: "processaAdocoes_estado ?p1 [] [''Rex'', ''Bebe'', ''Bola''] = Inr (?e, ?d)"
    by (simp add: a processaAdocoes_estado_def reconcilia_passo_def del: alocacao.simps)
  have p1: "pode 1 ?p1 ''Zero'' = Inr True" by (simp add: avalia)
  have p2: "pode 2 [] ''Zero'' = Inr False" by (simp add: avalia)
  from C5_quota_caps [of ?p1 "[]" "[''Rex'', ''Bebe'', ''Bola'']" ?e ?d 1 ?e ?d 1 "''Zero''" ?e ?d]
    a r p1 p2
  show ?thesis by (simp add: toys_de_def)
qed

section \<open>The pass over Loco\<close>

text \<open>
  The second loop acts on the key \<open>Loco\<close> alone, and a second visit of that key would
  change nothing: the loop is one application of its body to \<open>Loco\<close>.
\<close>

lemma reconcilia_passo_outro:
  "x \<noteq> ''Loco'' \<Longrightarrow> reconcilia_passo p1Toys p2Toys x ed = ed"
  by (simp add: reconcilia_passo_def)

lemma reconcilia_passo_ausente:
  "map_of (snd ed) ''Loco'' = None \<Longrightarrow> reconcilia_passo p1Toys p2Toys ''Loco'' ed = ed"
  by (simp add: reconcilia_passo_def)

lemma reconcilia_passo_idem:
  "reconcilia_passo p1Toys p2Toys ''Loco'' (reconcilia_passo p1Toys p2Toys ''Loco'' ed)
     = reconcilia_passo p1Toys p2Toys ''Loco'' ed"
proof -
  from reconcilia_passo_casos [of p1Toys p2Toys "''Loco''" ed] show ?thesis
  proof
    assume "reconcilia_passo p1Toys p2Toys ''Loco'' ed = ed"
    then show ?thesis by simp
  next
    assume "\<exists>v. reconcilia_passo p1Toys p2Toys ''Loco'' ed =
          ((fst ed)(v := (fst ed v)\<lparr>total_adotados := total_adotados (fst ed v) - 1\<rparr>),
           AList.update ''Loco'' ''abrigo'' (snd ed))"
    then obtain v where r: "reconcilia_passo p1Toys p2Toys ''Loco'' ed =
          ((fst ed)(v := (fst ed v)\<lparr>total_adotados := total_adotados (fst ed v) - 1\<rparr>),
           AList.update ''Loco'' ''abrigo'' (snd ed))" by blast
    have "map_of (snd (reconcilia_passo p1Toys p2Toys ''Loco'' ed)) ''Loco'' = Some ''abrigo''"
      by (simp add: r update_conv')
    then show ?thesis
      by (subst (1) reconcilia_passo_def) (simp add: Let_def)
  qed
qed

lemma reconcilia_laco:
  "reconcilia p1Toys p2Toys chaves ed =
    (if ''Loco'' \<in> set chaves then reconcilia_passo p1Toys p2Toys ''Loco'' ed else ed)"
proof (induction chaves arbitrary: ed)
  case Nil
  then show ?case by simp
next
  case (Cons x chaves)
  show ?case
  proof (cases "x = ''Loco''")
    case True
    with Cons.IH [of "reconcilia_passo p1Toys p2Toys ''Loco'' ed"] show ?thesis
      by (simp add: reconcilia_passo_idem)
  next
    case False
    with Cons.IH [of ed] show ?thesis
      by (simp add: reconcilia_passo_outro)
  qed
qed

lemma reconcilia_chaves:
  "reconcilia p1Toys p2Toys (map fst destino) (est, destino)
     = reconcilia_passo p1Toys p2Toys ''Loco'' (est, destino)"
proof (cases "''Loco'' \<in> set (map fst destino)")
  case True
  then show ?thesis by (simp add: reconcilia_laco)
next
  case False
  then have "map_of destino ''Loco'' = None"
    by (simp add: map_of_eq_None_iff)
  then have "reconcilia_passo p1Toys p2Toys ''Loco'' (est, destino) = (est, destino)"
    by (simp add: reconcilia_passo_ausente)
  with False show ?thesis by (simp add: reconcilia_laco)
qed

lemma pode_loco:
  "pode v toys ''Loco'' = Inr (set [''SKATE'', ''RATO''] \<subseteq> set toys)"
  by (simp add: pode_def catalogo_def catalogo_entradas_def)

text \<open>The body on \<open>Loco\<close>, when the first loop left Loco with adopter \<open>v\<close>.\<close>

lemma reconcilia_passo_loco:
  assumes "v = 1 \<or> v = 2" and "map_of destino ''Loco'' = Some (rotulo v)"
  shows "reconcilia_passo p1Toys p2Toys ''Loco'' (est, destino) =
    (if set [''SKATE'', ''RATO''] \<subseteq> set (toys_de v p1Toys p2Toys) \<and> total_adotados (est v) \<ge> 2
     then (est, destino)
     else (est(v := (est v)\<lparr>total_adotados := total_adotados (est v) - 1\<rparr>),
           AList.update ''Loco'' ''abrigo'' destino))"
  using assms
  by (auto simp: reconcilia_passo_def Let_def rotulo_def toys_de_def catalogo_def
      catalogo_entradas_def)

lemma reconcilia_passo_loco_abrigo:
  assumes "map_of destino ''Loco'' = Some ''abrigo''"
  shows "reconcilia_passo p1Toys p2Toys ''Loco'' (est, destino) = (est, destino)"
  using assms by (simp add: reconcilia_passo_def)

text \<open>
  The first loop leaves Loco with an adopter only when that adopter passed Loco's
  eligibility test, which is the containment that the second loop computes again.
\<close>

lemma passo_loco:
  assumes p: "passo p1Toys p2Toys nome (est, destino) = Inr (est', destino')"
    and i: "\<forall>quem. map_of destino ''Loco'' = Some quem \<longrightarrow>
         quem = ''abrigo'' \<or> (\<exists>v. (v = 1 \<or> v = 2) \<and> quem = rotulo v
            \<and> pode v (toys_de v p1Toys p2Toys) ''Loco'' = Inr True)"
  shows "\<forall>quem. map_of destino' ''Loco'' = Some quem \<longrightarrow>
         quem = ''abrigo'' \<or> (\<exists>v. (v = 1 \<or> v = 2) \<and> quem = rotulo v
            \<and> pode v (toys_de v p1Toys p2Toys) ''Loco'' = Inr True)"
proof (cases "nome = ''Loco''")
  case True
  from passo_casos [OF p] True show ?thesis
    by (auto simp: update_conv')
next
  case False
  from passo_destino [OF p] obtain quem where "destino' = AList.update nome quem destino"
    by blast
  with False have "map_of destino' ''Loco'' = map_of destino ''Loco''"
    by (simp add: update_conv')
  with i show ?thesis by simp
qed

lemma alocacao_loco:
  "alocacao p1Toys p2Toys ordem (est, destino) = Inr (est', destino') \<Longrightarrow>
   \<forall>quem. map_of destino ''Loco'' = Some quem \<longrightarrow>
         quem = ''abrigo'' \<or> (\<exists>v. (v = 1 \<or> v = 2) \<and> quem = rotulo v
            \<and> pode v (toys_de v p1Toys p2Toys) ''Loco'' = Inr True) \<Longrightarrow>
   \<forall>quem. map_of destino' ''Loco'' = Some quem \<longrightarrow>
         quem = ''abrigo'' \<or> (\<exists>v. (v = 1 \<or> v = 2) \<and> quem = rotulo v
            \<and> pode v (toys_de v p1Toys p2Toys) ''Loco'' = Inr True)"
proof (induction ordem arbitrary: est destino)
  case Nil
  then show ?case by simp
next
  case (Cons nome resto)
  from Cons.prems(1) obtain est1 destino1 where
    p: "passo p1Toys p2Toys nome (est, destino) = Inr (est1, destino1)"
    and r: "alocacao p1Toys p2Toys resto (est1, destino1) = Inr (est', destino')"
    by (rule alocacao_Cons_Inr)
  from Cons.IH [OF r passo_loco [OF p Cons.prems(2)]] show ?case .
qed

lemma rotulo_inj: "v = 1 \<or> v = 2 \<Longrightarrow> w = 1 \<or> w = 2 \<Longrightarrow> rotulo v = rotulo w \<Longrightarrow> v = w"
  by (auto simp: rotulo_def)

lemma alocacao_loco_inicial:
  assumes a: "alocacao p1Toys p2Toys ordem (estado_inicial, []) = Inr (est, destino)"
    and v: "v = 1 \<or> v = 2" and l: "map_of destino ''Loco'' = Some (rotulo v)"
  shows "set [''SKATE'', ''RATO''] \<subseteq> set (toys_de v p1Toys p2Toys)"
proof -
  have "\<forall>quem. map_of [] ''Loco'' = Some quem \<longrightarrow>
         quem = ''abrigo'' \<or> (\<exists>v. (v = 1 \<or> v = 2) \<and> quem = rotulo v
            \<and> pode v (toys_de v p1Toys p2Toys) ''Loco'' = Inr True)" by simp
  from alocacao_loco [OF a this] l rotulo_abrigo [of v]
  obtain w where w: "w = 1 \<or> w = 2" "rotulo v = rotulo w"
    "pode w (toys_de w p1Toys p2Toys) ''Loco'' = Inr True" by auto
  from rotulo_inj [OF v w(1) w(2)] w(3) have "pode v (toys_de v p1Toys p2Toys) ''Loco'' = Inr True"
    by simp
  then show ?thesis by (simp only: pode_loco sum.inject)
qed

lemma update_valores:
  "snd ` set (AList.update k v al) \<subseteq> insert v (snd ` set al)"
  by (induction al) auto

lemma alocacao_valores:
  "alocacao p1Toys p2Toys ordem (est, destino) = Inr (est', destino') \<Longrightarrow>
   snd ` set destino \<subseteq> {''abrigo'', ''pessoa 1'', ''pessoa 2''} \<Longrightarrow>
   snd ` set destino' \<subseteq> {''abrigo'', ''pessoa 1'', ''pessoa 2''}"
proof (induction ordem arbitrary: est destino)
  case Nil
  then show ?case by simp
next
  case (Cons nome resto)
  from Cons.prems(1) obtain est1 destino1 where
    p: "passo p1Toys p2Toys nome (est, destino) = Inr (est1, destino1)"
    and r: "alocacao p1Toys p2Toys resto (est1, destino1) = Inr (est', destino')"
    by (rule alocacao_Cons_Inr)
  from passo_destino [OF p] obtain quem where
    q: "destino1 = AList.update nome quem destino" "quem \<in> {''abrigo'', ''pessoa 1'', ''pessoa 2''}"
    by blast
  from update_valores [of nome quem destino] q Cons.prems(2)
  have "snd ` set destino1 \<subseteq> {''abrigo'', ''pessoa 1'', ''pessoa 2''}"
    by blast
  from Cons.IH [OF r this] show ?case .
qed

text \<open>
  When no name is processed twice, every iteration appends its key to \<open>destino\<close>, and
  the \<open>total\<close> of an adopter is the number of entries that carry the adopter's label.
\<close>

lemma update_novo:
  "k \<notin> fst ` set al \<Longrightarrow> AList.update k v al = al @ [(k, v)]"
  by (induction al) auto

lemma passo_contagem_exata:
  assumes p: "passo p1Toys p2Toys nome (est, destino) = Inr (est', destino')"
    and n: "nome \<notin> fst ` set destino"
    and k: "k = 1 \<or> k = 2"
    and i: "int (length (colocados k destino)) = total_adotados (est k)"
  shows "int (length (colocados k destino')) = total_adotados (est' k)
       \<and> map fst destino' = map fst destino @ [nome]"
proof -
  from passo_casos [OF p] consider
    (abrigo) "est' = est" "destino' = AList.update nome ''abrigo'' destino"
  | (adota) v where "v = 1 \<or> v = 2"
      "est' = est(v := (est v)\<lparr>total_adotados := total_adotados (est v) + 1,
                 possuiOutroAnimal := True,
                 gatos := (if e_gato (catalogo nome) then gatos (est v) + 1 else gatos (est v))\<rparr>)"
      "destino' = AList.update nome (rotulo v) destino"
    by blast
  then show ?thesis
  proof cases
    case abrigo
    with n i rotulo_abrigo [of k] show ?thesis
      by (auto simp: update_novo colocados_def)
  next
    case adota
    have "(rotulo v = rotulo k) = (k = v)"
      using k adota(1) by (auto simp: rotulo_def)
    with adota n i show ?thesis
      by (auto simp: update_novo colocados_def)
  qed
qed

lemma alocacao_contagem_exata:
  "alocacao p1Toys p2Toys ordem (est, destino) = Inr (est', destino') \<Longrightarrow>
   distinct (map fst destino @ ordem) \<Longrightarrow>
   k = 1 \<or> k = 2 \<Longrightarrow>
   int (length (colocados k destino)) = total_adotados (est k) \<Longrightarrow>
   int (length (colocados k destino')) = total_adotados (est' k)
   \<and> map fst destino' = map fst destino @ ordem"
proof (induction ordem arbitrary: est destino)
  case Nil
  then show ?case by simp
next
  case (Cons nome resto)
  from Cons.prems(1) obtain est1 destino1 where
    p: "passo p1Toys p2Toys nome (est, destino) = Inr (est1, destino1)"
    and r: "alocacao p1Toys p2Toys resto (est1, destino1) = Inr (est', destino')"
    by (rule alocacao_Cons_Inr)
  from Cons.prems(2) have n: "nome \<notin> fst ` set destino" by auto
  from passo_contagem_exata [OF p n Cons.prems(3) Cons.prems(4)]
  have c: "int (length (colocados k destino1)) = total_adotados (est1 k)"
    and m: "map fst destino1 = map fst destino @ [nome]" by simp_all
  from Cons.prems(2) m have "distinct (map fst destino1 @ resto)" by simp
  from Cons.IH [OF r this Cons.prems(3) c] m show ?case by simp
qed

lemma outro_colocado:
  assumes d: "distinct (map fst destino)"
    and l: "2 \<le> length (colocados k destino)"
  shows "\<exists>outro. outro \<noteq> ''Loco'' \<and> map_of destino outro = Some (rotulo k)"
proof (rule ccontr)
  assume c: "\<not> ?thesis"
  have dc: "distinct (map fst (colocados k destino))"
    using d by (simp add: colocados_def distinct_map_filter)
  have "set (map fst (colocados k destino)) \<subseteq> {''Loco''}"
  proof
    fix n assume "n \<in> set (map fst (colocados k destino))"
    then have "(n, rotulo k) \<in> set destino"
      by (auto simp: colocados_def)
    with d have "map_of destino n = Some (rotulo k)" by simp
    with c show "n \<in> {''Loco''}" by auto
  qed
  then have "card (set (map fst (colocados k destino))) \<le> card {''Loco''}"
    by (intro card_mono) simp_all
  moreover from dc have "card (set (map fst (colocados k destino))) = length (colocados k destino)"
    using distinct_card [of "map fst (colocados k destino)"] by simp
  ultimately have "length (colocados k destino) \<le> 1"
    by simp
  with l show False by simp
qed

lemma alocacao_loco_casos:
  assumes a: "alocacao p1Toys p2Toys ordem (estado_inicial, []) = Inr (est, destino)"
  obtains (fora) "map_of destino ''Loco'' = None"
  | (abrigo) "map_of destino ''Loco'' = Some ''abrigo''"
  | (adotado) w where "w = 1 \<or> w = 2" "map_of destino ''Loco'' = Some (rotulo w)"
      "set [''SKATE'', ''RATO''] \<subseteq> set (toys_de w p1Toys p2Toys)"
proof (cases "map_of destino ''Loco''")
  case None
  then show ?thesis by (rule fora)
next
  case (Some quem)
  have "\<forall>quem. map_of [] ''Loco'' = Some quem \<longrightarrow>
         quem = ''abrigo'' \<or> (\<exists>v. (v = 1 \<or> v = 2) \<and> quem = rotulo v
            \<and> pode v (toys_de v p1Toys p2Toys) ''Loco'' = Inr True)" by simp
  from alocacao_loco [OF a this] Some
  have "quem = ''abrigo'' \<or> (\<exists>v. (v = 1 \<or> v = 2) \<and> quem = rotulo v
            \<and> pode v (toys_de v p1Toys p2Toys) ''Loco'' = Inr True)" by blast
  then show ?thesis
  proof
    assume "quem = ''abrigo''"
    with Some show ?thesis by (intro abrigo) simp
  next
    assume "\<exists>v. (v = 1 \<or> v = 2) \<and> quem = rotulo v
            \<and> pode v (toys_de v p1Toys p2Toys) ''Loco'' = Inr True"
    then obtain w where w: "w = 1 \<or> w = 2" "quem = rotulo w"
      "pode w (toys_de w p1Toys p2Toys) ''Loco'' = Inr True" by blast
    from w(2) Some have "map_of destino ''Loco'' = Some (rotulo w)" by simp
    from alocacao_loco_inicial [OF a w(1) this] w(1) this show ?thesis by (intro adotado [of w])
  qed
qed

lemma reconcilia_passo_loco_fica:
  assumes "v = 1 \<or> v = 2" and "map_of destino ''Loco'' = Some (rotulo v)"
    and "set [''SKATE'', ''RATO''] \<subseteq> set (toys_de v p1Toys p2Toys)
        \<and> 2 \<le> total_adotados (est v)"
  shows "reconcilia_passo p1Toys p2Toys ''Loco'' (est, destino) = (est, destino)"
  by (subst reconcilia_passo_loco [OF assms(1,2)]) (rule if_P [OF assms(3)])

lemma reconcilia_passo_loco_sai:
  assumes "v = 1 \<or> v = 2" and "map_of destino ''Loco'' = Some (rotulo v)"
    and "\<not> (set [''SKATE'', ''RATO''] \<subseteq> set (toys_de v p1Toys p2Toys)
        \<and> 2 \<le> total_adotados (est v))"
  shows "reconcilia_passo p1Toys p2Toys ''Loco'' (est, destino) =
     (est(v := (est v)\<lparr>total_adotados := total_adotados (est v) - 1\<rparr>),
      AList.update ''Loco'' ''abrigo'' destino)"
  by (subst reconcilia_passo_loco [OF assms(1,2)]) (rule if_not_P [OF assms(3)])

lemma processaAdocoes_estado_passo:
  assumes "alocacao p1Toys p2Toys ordem (estado_inicial, []) = Inr (est, destino)"
  shows "processaAdocoes_estado p1Toys p2Toys ordem
           = Inr (reconcilia_passo p1Toys p2Toys ''Loco'' (est, destino))"
  using assms
  by (simp add: processaAdocoes_estado_def reconcilia_chaves del: alocacao.simps)

text \<open>
  Claim C3. Take a run whose first loop ends in the state \<open>est\<close> with \<open>destino\<close>, and
  whose method ends in \<open>est'\<close> with \<open>adocoes\<close>. If Loco is with adopter \<open>v\<close> in
  \<open>adocoes\<close>, then the inventory of \<open>v\<close> contains Loco's two toys, the \<open>total\<close> of
  \<open>v\<close> at the end of the first loop is at least 2, the second loop changed nothing,
  and (no name being processed twice) another animal is with \<open>v\<close> in \<open>adocoes\<close>. If the
  first loop left Loco with \<open>v\<close> and one of the two conditions fails on the state of the
  end of the first loop, Loco is in the shelter in \<open>adocoes\<close> and the \<open>total\<close> of \<open>v\<close>
  is one less.
\<close>

theorem C3_loco_needs_toys_and_company:
  assumes a: "alocacao p1Toys p2Toys ordem (estado_inicial, []) = Inr (est, destino)"
    and r: "processaAdocoes_estado p1Toys p2Toys ordem = Inr (est', adocoes)"
    and v: "v = 1 \<or> v = 2"
  shows "processaAdocoes p1Toys p2Toys ordem = Inr adocoes
   \<and> (map_of adocoes ''Loco'' = Some (rotulo v) \<longrightarrow>
        set [''SKATE'', ''RATO''] \<subseteq> set (toys_de v p1Toys p2Toys)
        \<and> 2 \<le> total_adotados (est v) \<and> est' = est \<and> adocoes = destino
        \<and> (distinct ordem \<longrightarrow>
             (\<exists>outro. outro \<noteq> ''Loco'' \<and> map_of adocoes outro = Some (rotulo v))))
   \<and> (map_of destino ''Loco'' = Some (rotulo v)
        \<and> \<not> (set [''SKATE'', ''RATO''] \<subseteq> set (toys_de v p1Toys p2Toys)
             \<and> 2 \<le> total_adotados (est v)) \<longrightarrow>
        map_of adocoes ''Loco'' = Some ''abrigo''
        \<and> adocoes = AList.update ''Loco'' ''abrigo'' destino
        \<and> est' = est(v := (est v)\<lparr>total_adotados := total_adotados (est v) - 1\<rparr>))"
proof (intro conjI impI)
  show "processaAdocoes p1Toys p2Toys ordem = Inr adocoes"
    using r by (simp add: processaAdocoes_def)
next
  from r processaAdocoes_estado_passo [OF a]
  have e: "reconcilia_passo p1Toys p2Toys ''Loco'' (est, destino) = (est', adocoes)" by simp
  assume l: "map_of adocoes ''Loco'' = Some (rotulo v)"
  from a have k: "set [''SKATE'', ''RATO''] \<subseteq> set (toys_de v p1Toys p2Toys)
        \<and> 2 \<le> total_adotados (est v) \<and> est' = est \<and> adocoes = destino"
  proof (cases rule: alocacao_loco_casos)
    case fora
    with e l show ?thesis by (simp add: reconcilia_passo_ausente)
  next
    case abrigo
    with e l rotulo_abrigo [of v] show ?thesis by (simp add: reconcilia_passo_loco_abrigo)
  next
    case (adotado w)
    show ?thesis
    proof (cases "set [''SKATE'', ''RATO''] \<subseteq> set (toys_de w p1Toys p2Toys)
        \<and> 2 \<le> total_adotados (est w)")
      case True
      from e reconcilia_passo_loco_fica [where est = est and v = w, OF adotado(1,2) True]
      have u: "est' = est" "adocoes = destino" by simp_all
      with l adotado(2) have "rotulo v = rotulo w" by simp
      from rotulo_inj [OF v adotado(1) this] True u show ?thesis by simp
    next
      case False
      from e reconcilia_passo_loco_sai [where est = est and v = w, OF adotado(1,2) False]
      have "adocoes = AList.update ''Loco'' ''abrigo'' destino" by simp
      with l rotulo_abrigo [of v] show ?thesis by (simp add: update_conv')
    qed
  qed
  then show "set [''SKATE'', ''RATO''] \<subseteq> set (toys_de v p1Toys p2Toys)"
    "2 \<le> total_adotados (est v)" "est' = est" "adocoes = destino" by simp_all
  assume d: "distinct ordem"
  have "int (length (colocados v [])) = total_adotados (estado_inicial v)"
    by (simp add: colocados_def estado_inicial_cotas)
  from alocacao_contagem_exata [OF a _ v this] d
  have c: "int (length (colocados v destino)) = total_adotados (est v)"
    "map fst destino = ordem" by simp_all
  from c k have "2 \<le> length (colocados v destino)" by linarith
  from outro_colocado [OF _ this] c(2) d k
  show "\<exists>outro. outro \<noteq> ''Loco'' \<and> map_of adocoes outro = Some (rotulo v)" by simp
next
  from r processaAdocoes_estado_passo [OF a]
  have e: "reconcilia_passo p1Toys p2Toys ''Loco'' (est, destino) = (est', adocoes)" by simp
  assume h: "map_of destino ''Loco'' = Some (rotulo v)
        \<and> \<not> (set [''SKATE'', ''RATO''] \<subseteq> set (toys_de v p1Toys p2Toys)
             \<and> 2 \<le> total_adotados (est v))"
  then have m: "map_of destino ''Loco'' = Some (rotulo v)"
    and n: "\<not> (set [''SKATE'', ''RATO''] \<subseteq> set (toys_de v p1Toys p2Toys)
             \<and> 2 \<le> total_adotados (est v))" by simp_all
  from e reconcilia_passo_loco_sai [where est = est and v = v, OF v m n]
  have u: "adocoes = AList.update ''Loco'' ''abrigo'' destino"
    "est' = est(v := (est v)\<lparr>total_adotados := total_adotados (est v) - 1\<rparr>)"
    by simp_all
  then show "adocoes = AList.update ''Loco'' ''abrigo'' destino"
    "est' = est(v := (est v)\<lparr>total_adotados := total_adotados (est v) - 1\<rparr>)" by simp_all
  from u(1) show "map_of adocoes ''Loco'' = Some ''abrigo''" by (simp add: update_conv')
qed

theorem C3_loco_needs_toys_and_company_witness:
  "alocacao [''SKATE'', ''RATO'', ''BOLA''] [''LASER''] [''Loco'', ''Rex''] (estado_inicial, [])
     = Inr (estado_inicial(1 := \<lparr>total_adotados = 2, gatos = 0, possuiOutroAnimal = True\<rparr>),
            [(''Loco'', ''pessoa 1''), (''Rex'', ''pessoa 1'')])
   \<and> processaAdocoes [''SKATE'', ''RATO'', ''BOLA''] [''LASER''] [''Loco'', ''Rex'']
     = Inr [(''Loco'', ''pessoa 1''), (''Rex'', ''pessoa 1'')]
   \<and> (\<exists>outro. outro \<noteq> ''Loco''
        \<and> map_of [(''Loco'', ''pessoa 1''), (''Rex'', ''pessoa 1'')] outro = Some (rotulo 1))
   \<and> alocacao [''SKATE'', ''RATO'', ''BOLA''] [''LASER''] [''Loco''] (estado_inicial, [])
     = Inr (estado_inicial(1 := \<lparr>total_adotados = 1, gatos = 0, possuiOutroAnimal = True\<rparr>),
            [(''Loco'', ''pessoa 1'')])
   \<and> processaAdocoes_estado [''SKATE'', ''RATO'', ''BOLA''] [''LASER''] [''Loco'']
     = Inr (estado_inicial(1 := \<lparr>total_adotados = 0, gatos = 0, possuiOutroAnimal = True\<rparr>),
            [(''Loco'', ''abrigo'')])
   \<and> processaAdocoes [''SKATE'', ''RATO'', ''BOLA''] [''LASER''] [''Loco'']
     = Inr [(''Loco'', ''abrigo'')]"
proof -
  let ?p1 = "[''SKATE'', ''RATO'', ''BOLA'']" and ?p2 = "[''LASER'']"
  let ?e2 = "estado_inicial(1 := \<lparr>total_adotados = 2, gatos = 0, possuiOutroAnimal = True\<rparr>)"
  let ?e1 = "estado_inicial(1 := \<lparr>total_adotados = 1, gatos = 0, possuiOutroAnimal = True\<rparr>)"
  let ?e0 = "estado_inicial(1 := \<lparr>total_adotados = 0, gatos = 0, possuiOutroAnimal = True\<rparr>)"
  let ?d2 = "[(''Loco'', ''pessoa 1''), (''Rex'', ''pessoa 1'')]"
  have a2: "alocacao ?p1 ?p2 [''Loco'', ''Rex''] (estado_inicial, []) = Inr (?e2, ?d2)"
    by (simp add: avalia)
  have r2: "processaAdocoes_estado ?p1 ?p2 [''Loco'', ''Rex''] = Inr (?e2, ?d2)"
    by (simp add: a2 processaAdocoes_estado_def reconcilia_passo_def catalogo_def
        catalogo_entradas_def del: alocacao.simps)
  have a1: "alocacao ?p1 ?p2 [''Loco''] (estado_inicial, []) = Inr (?e1, [(''Loco'', ''pessoa 1'')])"
    by (simp add: avalia)
  have r1: "processaAdocoes_estado ?p1 ?p2 [''Loco''] = Inr (?e0, [(''Loco'', ''abrigo'')])"
    by (simp add: a1 processaAdocoes_estado_def reconcilia_passo_def catalogo_def
        catalogo_entradas_def del: alocacao.simps)
  from C3_loco_needs_toys_and_company [OF a2 r2, of 1]
    C3_loco_needs_toys_and_company [OF a1 r1, of 1] a1 a2 r1
  show ?thesis by (simp add: rotulo_def)
qed

text \<open>
  Claim C10. Whenever the first loop leaves Loco with an adopter, the inventory of that
  adopter contains Loco's two toys, so the toy test of the second loop holds, and Loco
  is in the shelter in the returned \<open>destino\<close> exactly when the \<open>total\<close> of that
  adopter at the end of the first loop is below 2. The first loop leaves Loco nowhere
  else than in the shelter or with one of the two adopters.
\<close>

theorem C10_loco_revoked_iff_alone:
  assumes a: "alocacao p1Toys p2Toys ordem (estado_inicial, []) = Inr (est, destino)"
    and r: "processaAdocoes p1Toys p2Toys ordem = Inr adocoes"
  shows "(map_of destino ''Loco'' = Some quem \<longrightarrow>
            quem = ''abrigo'' \<or> quem = rotulo 1 \<or> quem = rotulo 2)
   \<and> ((v = 1 \<or> v = 2) \<and> map_of destino ''Loco'' = Some (rotulo v) \<longrightarrow>
        set [''SKATE'', ''RATO''] \<subseteq> set (toys_de v p1Toys p2Toys)
        \<and> (map_of adocoes ''Loco'' = Some ''abrigo'' \<longleftrightarrow> total_adotados (est v) < 2)
        \<and> (map_of adocoes ''Loco'' \<noteq> Some ''abrigo'' \<longrightarrow> adocoes = destino))"
proof (intro conjI impI)
  assume q: "map_of destino ''Loco'' = Some quem"
  from a show "quem = ''abrigo'' \<or> quem = rotulo 1 \<or> quem = rotulo 2"
  proof (cases rule: alocacao_loco_casos)
    case fora
    with q show ?thesis by simp
  next
    case abrigo
    with q show ?thesis by simp
  next
    case (adotado w)
    with q show ?thesis by auto
  qed
next
  assume h: "(v = 1 \<or> v = 2) \<and> map_of destino ''Loco'' = Some (rotulo v)"
  then have v: "v = 1 \<or> v = 2" and l: "map_of destino ''Loco'' = Some (rotulo v)" by simp_all
  from r processaAdocoes_estado_passo [OF a]
  have e: "adocoes = snd (reconcilia_passo p1Toys p2Toys ''Loco'' (est, destino))"
    by (simp add: processaAdocoes_def)
  from alocacao_loco_inicial [OF a v l]
  show t: "set [''SKATE'', ''RATO''] \<subseteq> set (toys_de v p1Toys p2Toys)" .
  have c: "(map_of adocoes ''Loco'' = Some ''abrigo'' \<longleftrightarrow> total_adotados (est v) < 2)
        \<and> (map_of adocoes ''Loco'' \<noteq> Some ''abrigo'' \<longrightarrow> adocoes = destino)"
  proof (cases "2 \<le> total_adotados (est v)")
    case True
    with t have "set [''SKATE'', ''RATO''] \<subseteq> set (toys_de v p1Toys p2Toys)
        \<and> 2 \<le> total_adotados (est v)" by simp
    from e reconcilia_passo_loco_fica [where est = est and v = v, OF v l this]
    have "adocoes = destino" by simp
    with l True rotulo_abrigo [of v] show ?thesis by simp
  next
    case False
    then have "\<not> (set [''SKATE'', ''RATO''] \<subseteq> set (toys_de v p1Toys p2Toys)
        \<and> 2 \<le> total_adotados (est v))" by simp
    from e reconcilia_passo_loco_sai [where est = est and v = v, OF v l this]
    have "adocoes = AList.update ''Loco'' ''abrigo'' destino" by simp
    with False show ?thesis by (simp add: update_conv')
  qed
  from c show "map_of adocoes ''Loco'' = Some ''abrigo'' \<longleftrightarrow> total_adotados (est v) < 2"
    by simp
  assume "map_of adocoes ''Loco'' \<noteq> Some ''abrigo''"
  with c show "adocoes = destino" by simp
qed

theorem C10_loco_revoked_iff_alone_witness:
  "alocacao [''RATO'', ''SKATE''] [] [''Loco''] (estado_inicial, [])
     = Inr (estado_inicial(1 := \<lparr>total_adotados = 1, gatos = 0, possuiOutroAnimal = True\<rparr>),
            [(''Loco'', ''pessoa 1'')])
   \<and> processaAdocoes [''RATO'', ''SKATE''] [] [''Loco''] = Inr [(''Loco'', ''abrigo'')]
   \<and> set [''SKATE'', ''RATO''] \<subseteq> set (toys_de 1 [''RATO'', ''SKATE''] [])
   \<and> alocacao [''RATO'', ''SKATE'', ''BOLA''] [] [''Loco'', ''Rex''] (estado_inicial, [])
     = Inr (estado_inicial(1 := \<lparr>total_adotados = 2, gatos = 0, possuiOutroAnimal = True\<rparr>),
            [(''Loco'', ''pessoa 1''), (''Rex'', ''pessoa 1'')])
   \<and> processaAdocoes [''RATO'', ''SKATE'', ''BOLA''] [] [''Loco'', ''Rex'']
     = Inr [(''Loco'', ''pessoa 1''), (''Rex'', ''pessoa 1'')]"
proof -
  let ?e1 = "estado_inicial(1 := \<lparr>total_adotados = 1, gatos = 0, possuiOutroAnimal = True\<rparr>)"
  let ?e2 = "estado_inicial(1 := \<lparr>total_adotados = 2, gatos = 0, possuiOutroAnimal = True\<rparr>)"
  have a1: "alocacao [''RATO'', ''SKATE''] [] [''Loco''] (estado_inicial, [])
     = Inr (?e1, [(''Loco'', ''pessoa 1'')])"
    by (simp add: avalia)
  have r1: "processaAdocoes [''RATO'', ''SKATE''] [] [''Loco''] = Inr [(''Loco'', ''abrigo'')]"
    by (simp add: a1 processaAdocoes_def processaAdocoes_estado_def reconcilia_passo_def
        catalogo_def catalogo_entradas_def del: alocacao.simps)
  have a2: "alocacao [''RATO'', ''SKATE'', ''BOLA''] [] [''Loco'', ''Rex''] (estado_inicial, [])
     = Inr (?e2, [(''Loco'', ''pessoa 1''), (''Rex'', ''pessoa 1'')])"
    by (simp add: avalia)
  have r2: "processaAdocoes [''RATO'', ''SKATE'', ''BOLA''] [] [''Loco'', ''Rex'']
     = Inr [(''Loco'', ''pessoa 1''), (''Rex'', ''pessoa 1'')]"
    by (simp add: a2 processaAdocoes_def processaAdocoes_estado_def reconcilia_passo_def
        catalogo_def catalogo_entradas_def del: alocacao.simps)
  from C10_loco_revoked_iff_alone [OF a1 r1, of "''pessoa 1''" 1]
    C10_loco_revoked_iff_alone [OF a2 r2, of "''pessoa 1''" 1] a1 a2 r1 r2
  show ?thesis by (simp add: rotulo_def)
qed

section \<open>Parsing\<close>

lemma dropWhile_todos:
  "(\<forall>c \<in> set (dropWhile P s). P c) \<longleftrightarrow> (\<forall>c \<in> set s. P c)"
  by (induction s) auto

lemma trim_vazio: "trim s = [] \<longleftrightarrow> (\<forall>c \<in> set s. espaco c)"
  by (simp add: trim_def dropWhile_todos)

lemma espaco_virgula: "\<not> espaco (CHR '','')"
  by (simp add: espaco_def)

lemma split_virgula_sem_virgula:
  "CHR '','' \<notin> set s \<Longrightarrow> split_virgula s = [s]"
  by (induction s) auto

lemma trim_extremos:
  assumes "trim s \<noteq> []"
  shows "\<not> espaco (hd (trim s)) \<and> \<not> espaco (last (trim s))"
proof -
  let ?u = "dropWhile espaco s"
  let ?w = "dropWhile espaco (rev ?u)"
  from assms have w: "?w \<noteq> []" by (simp add: trim_def)
  have u: "?u \<noteq> []"
  proof
    assume "?u = []"
    then have "?w = []" by (simp only: rev.simps dropWhile.simps)
    with w show False by (simp only:)
  qed
  have "last (trim s) = hd ?w" using w by (simp add: trim_def last_rev)
  moreover have "\<not> espaco (hd ?w)" using w by (rule hd_dropWhile)
  moreover have "hd (trim s) = last ?w" using w by (simp add: trim_def hd_rev)
  moreover have "last ?w = last (rev ?u)"
    using w by (metis append_Nil2 last_appendR takeWhile_dropWhile_id)
  moreover have "last (rev ?u) = hd ?u" using u by (simp add: last_rev)
  moreover have "\<not> espaco (hd ?u)" using u by (rule hd_dropWhile)
  ultimately show ?thesis by simp
qed

lemma trim_miolo:
  "\<exists>antes depois. s = antes @ trim s @ depois
     \<and> (\<forall>c \<in> set antes. espaco c) \<and> (\<forall>c \<in> set depois. espaco c)"
proof -
  let ?u = "dropWhile espaco s"
  have 1: "s = takeWhile espaco s @ ?u" by simp
  from takeWhile_dropWhile_id [of espaco "rev ?u"]
  have "rev (takeWhile espaco (rev ?u) @ dropWhile espaco (rev ?u)) = rev (rev ?u)"
    by (simp only:)
  then have "rev (dropWhile espaco (rev ?u)) @ rev (takeWhile espaco (rev ?u)) = ?u"
    by (simp only: rev_append rev_rev_ident)
  then have 2: "?u = trim s @ rev (takeWhile espaco (rev ?u))"
    by (simp only: trim_def)
  have "s = takeWhile espaco s @ trim s @ rev (takeWhile espaco (rev ?u))"
    using 1 2 by metis
  moreover have "\<forall>c \<in> set (takeWhile espaco s). espaco c"
    by (auto dest: set_takeWhileD)
  moreover have "\<forall>c \<in> set (rev (takeWhile espaco (rev ?u))). espaco c"
    by (auto dest: set_takeWhileD)
  ultimately show ?thesis by blast
qed

lemma parseLista_Str:
  "parseLista (Str str) = filter (\<lambda>s. s \<noteq> []) (map trim (split_virgula str))"
proof (cases "trim str = []")
  case True
  then have "\<forall>c \<in> set str. espaco c" by (simp add: trim_vazio)
  with espaco_virgula have "CHR '','' \<notin> set str" by blast
  with True show ?thesis by (simp add: split_virgula_sem_virgula)
next
  case False
  then show ?thesis by simp
qed

lemma parseLista_aparado:
  assumes "t \<in> set (parseLista x)"
  shows "t \<noteq> [] \<and> \<not> espaco (hd t) \<and> \<not> espaco (last t)"
proof (cases x)
  case NaoString
  with assms show ?thesis by simp
next
  case (Str str)
  with assms obtain p where "t = trim p" "trim p \<noteq> []"
    by (auto simp: parseLista_Str simp del: parseLista.simps)
  with trim_extremos [of p] show ?thesis by simp
qed

lemma encontraPessoas_vazio:
  assumes "parseLista x = []" and "parseLista y = []" and "parseLista z = []"
  shows "encontraPessoas x y z = lista []"
  using assms
  by (simp add: encontraPessoas_def encontraPessoas_corpo_def validaBrinquedos_def
      validaAnimais_def processaAdocoes_def processaAdocoes_estado_def)

text \<open>
  Claim C8. A value that is not a string, the empty string and a string of white space
  alone all parse to the empty list. The tokens of a string are the pieces between its
  commas, each with the white space at its two ends removed, and the pieces that this
  leaves empty are dropped: a token is never empty and neither starts nor ends with white
  space. No parse is an error, and a call whose three arguments parse to the empty list
  returns the empty list of placements.
\<close>

theorem C8_empty_and_non_string_inputs:
  "parseLista NaoString = [] \<and> parseLista (Str []) = []
   \<and> ((\<forall>c \<in> set str. espaco c) \<longrightarrow> parseLista (Str str) = [])
   \<and> parseLista (Str str) = filter (\<lambda>s. s \<noteq> []) (map trim (split_virgula str))
   \<and> (\<exists>antes depois. s = antes @ trim s @ depois
         \<and> (\<forall>c \<in> set antes. espaco c) \<and> (\<forall>c \<in> set depois. espaco c))
   \<and> (\<forall>t \<in> set (parseLista x). t \<noteq> [] \<and> \<not> espaco (hd t) \<and> \<not> espaco (last t))
   \<and> (parseLista x = [] \<and> parseLista y = [] \<and> parseLista z = []
         \<longrightarrow> encontraPessoas x y z = lista [])
   \<and> encontraPessoas (Str []) (Str []) (Str []) = lista []"
proof (intro conjI impI ballI)
  show "parseLista NaoString = []" by simp
  show e: "parseLista (Str []) = []" by (simp add: trim_def)
  show "parseLista (Str str) = filter (\<lambda>s. s \<noteq> []) (map trim (split_virgula str))"
    by (rule parseLista_Str)
  show "\<exists>antes depois. s = antes @ trim s @ depois
         \<and> (\<forall>c \<in> set antes. espaco c) \<and> (\<forall>c \<in> set depois. espaco c)"
    by (rule trim_miolo)
  from e show "encontraPessoas (Str []) (Str []) (Str []) = lista []"
    by (intro encontraPessoas_vazio)
next
  assume "\<forall>c \<in> set str. espaco c"
  then have "trim str = []" by (simp add: trim_vazio)
  then show "parseLista (Str str) = []" by simp
next
  fix t assume "t \<in> set (parseLista x)"
  then have a: "t \<noteq> [] \<and> \<not> espaco (hd t) \<and> \<not> espaco (last t)"
    by (rule parseLista_aparado)
  from a show "t \<noteq> []" by simp
  from a show "\<not> espaco (hd t)" by simp
  from a show "\<not> espaco (last t)" by simp
next
  assume "parseLista x = [] \<and> parseLista y = [] \<and> parseLista z = []"
  then show "encontraPessoas x y z = lista []"
    by (intro encontraPessoas_vazio) simp_all
qed

theorem C8_empty_and_non_string_inputs_witness:
  "list_all espaco ''  '' \<and> parseLista (Str ''  '') = []
   \<and> parseLista (Str '' RATO , BOLA,, '') = [''RATO'', ''BOLA'']
   \<and> list_all (\<lambda>t. t \<noteq> [] \<and> \<not> espaco (hd t) \<and> \<not> espaco (last t))
         (parseLista (Str '' RATO , BOLA,, ''))
   \<and> parseLista NaoString = []
   \<and> encontraPessoas NaoString (Str ''  '') NaoString = lista []"
proof -
  have w: "\<forall>c \<in> set ''  ''. espaco c" by (simp add: espaco_def)
  have p: "parseLista (Str '' RATO , BOLA,, '') = [''RATO'', ''BOLA'']"
    by (simp add: trim_def espaco_def)
  have n: "parseLista NaoString = []" by simp
  have t1: "(\<forall>c \<in> set ''  ''. espaco c) \<longrightarrow> parseLista (Str ''  '') = []"
    using C8_empty_and_non_string_inputs [of "''  ''" "[]" NaoString NaoString NaoString]
    by (elim conjE)
  have t2: "\<forall>t \<in> set (parseLista (Str '' RATO , BOLA,, '')).
         t \<noteq> [] \<and> \<not> espaco (hd t) \<and> \<not> espaco (last t)"
    using C8_empty_and_non_string_inputs [of "[]" "[]" "Str '' RATO , BOLA,, ''" NaoString NaoString]
    by (elim conjE)
  have t3: "parseLista NaoString = [] \<and> parseLista (Str ''  '') = [] \<and> parseLista NaoString = []
         \<longrightarrow> encontraPessoas NaoString (Str ''  '') NaoString = lista []"
    using C8_empty_and_non_string_inputs [of "[]" "[]" NaoString "Str ''  ''" NaoString]
    by (elim conjE)
  from w t1 have e: "parseLista (Str ''  '') = []" by (rule rev_mp)
  from t3 n e have r: "encontraPessoas NaoString (Str ''  '') NaoString = lista []"
    by (simp only: simp_thms)
  show ?thesis
    unfolding list_all_iff
    by (rule conjI [OF w conjI [OF e conjI [OF p conjI [OF t2 conjI [OF n r]]]]])
qed

section \<open>Validation and the catch\<close>

lemma validaBrinquedos_laco_eq:
  "validaBrinquedos_laco vistos lst =
    (if distinct lst \<and> set lst \<inter> vistos = {} \<and> set lst \<subseteq> set brinquedosValidos
     then Inr () else Inl (Error Brinquedo_invalido))"
  by (induction lst arbitrary: vistos) auto

lemma validaBrinquedos_eq:
  "validaBrinquedos lst =
    (if distinct lst \<and> set lst \<subseteq> set brinquedosValidos
     then Inr () else Inl (Error Brinquedo_invalido))"
  by (simp add: validaBrinquedos_def validaBrinquedos_laco_eq)

lemma validaAnimais_laco_eq:
  "validaAnimais_laco vistos lst =
    (if distinct lst \<and> set lst \<inter> vistos = {} \<and> (\<forall>n \<in> set lst. catalogo n \<noteq> Indefinido)
     then Inr () else Inl (Error Animal_invalido))"
  by (induction lst arbitrary: vistos) auto

lemma validaAnimais_eq:
  "validaAnimais lst =
    (if distinct lst \<and> (\<forall>n \<in> set lst. catalogo n \<noteq> Indefinido)
     then Inr () else Inl (Error Animal_invalido))"
  by (simp add: validaAnimais_def validaAnimais_laco_eq)

text \<open>The call in terms of the three parsed lists.\<close>

lemma encontraPessoas_brinquedos:
  assumes "\<not> (distinct (parseLista a) \<and> set (parseLista a) \<subseteq> set brinquedosValidos)
         \<or> \<not> (distinct (parseLista b) \<and> set (parseLista b) \<subseteq> set brinquedosValidos)"
  shows "encontraPessoas a b c = erro Brinquedo_invalido"
  using assms
  by (auto simp: encontraPessoas_def encontraPessoas_corpo_def validaBrinquedos_eq Let_def)

lemma encontraPessoas_animais:
  assumes "distinct (parseLista a) \<and> set (parseLista a) \<subseteq> set brinquedosValidos"
    and "distinct (parseLista b) \<and> set (parseLista b) \<subseteq> set brinquedosValidos"
    and "\<not> distinct (parseLista c) \<or> (\<exists>n \<in> set (parseLista c). catalogo n = Indefinido)"
  shows "encontraPessoas a b c = erro Animal_invalido"
  using assms
  by (auto simp: encontraPessoas_def encontraPessoas_corpo_def validaBrinquedos_eq
      validaAnimais_eq Let_def)

lemma encontraPessoas_lista:
  assumes "encontraPessoas a b c = lista l"
  shows "distinct (parseLista a) \<and> set (parseLista a) \<subseteq> set brinquedosValidos
    \<and> distinct (parseLista b) \<and> set (parseLista b) \<subseteq> set brinquedosValidos
    \<and> distinct (parseLista c) \<and> (\<forall>n \<in> set (parseLista c). catalogo n \<noteq> Indefinido)"
proof (rule ccontr)
  assume n: "\<not> ?thesis"
  show False
  proof (cases "(distinct (parseLista a) \<and> set (parseLista a) \<subseteq> set brinquedosValidos)
      \<and> (distinct (parseLista b) \<and> set (parseLista b) \<subseteq> set brinquedosValidos)")
    case True
    with n have "\<not> distinct (parseLista c) \<or> (\<exists>n \<in> set (parseLista c). catalogo n = Indefinido)"
      by blast
    with True have "encontraPessoas a b c = erro Animal_invalido"
      by (intro encontraPessoas_animais) simp_all
    with assms show False by simp
  next
    case False
    then have "encontraPessoas a b c = erro Brinquedo_invalido"
      by (intro encontraPessoas_brinquedos) blast
    with assms show False by simp
  qed
qed

text \<open>The definitions that evaluate a call on concrete arguments.\<close>

lemmas avalia_entrada =
  encontraPessoas_def encontraPessoas_corpo_def trim_def espaco_def validaBrinquedos_def
  validaAnimais_def brinquedosValidos_def catalogo_def catalogo_entradas_def
  object_prototype_chaves_def

text \<open>
  Claim C6, as stated, fails: the order names the animal Lulu, which the catalogue does
  not have, and the call answers with the toy error, because the inventories are
  validated first and the first one repeats a toy.
\<close>

theorem C6_unknown_animal_after_bad_toy_counterexample:
  "parseLista (Str ''Lulu'') = [''Lulu''] \<and> map_of catalogo_entradas ''Lulu'' = None
   \<and> encontraPessoas (Str ''RATO,RATO'') (Str []) (Str ''Lulu'') = erro Brinquedo_invalido"
  by (simp add: avalia_entrada)

text \<open>
  Claim C6, amended. The three lists are validated before the first loop, the two
  inventories first. An inventory with a repeated toy or with a toy outside the six valid
  ones gives the toy error, whatever the order is. With two valid inventories, an order
  with a repeated name, or with a name that the lookup in the catalogue object does not
  find, gives the animal error. A list of placements is returned only when the three
  lists passed: an error never comes with placements.
\<close>

theorem C6_validation_errors:
  "(\<not> (distinct (parseLista a) \<and> set (parseLista a) \<subseteq> set brinquedosValidos)
      \<or> \<not> (distinct (parseLista b) \<and> set (parseLista b) \<subseteq> set brinquedosValidos)
     \<longrightarrow> encontraPessoas a b c = erro Brinquedo_invalido)
   \<and> (distinct (parseLista a) \<and> set (parseLista a) \<subseteq> set brinquedosValidos
      \<and> distinct (parseLista b) \<and> set (parseLista b) \<subseteq> set brinquedosValidos
      \<and> (\<not> distinct (parseLista c) \<or> (\<exists>n \<in> set (parseLista c). catalogo n = Indefinido))
     \<longrightarrow> encontraPessoas a b c = erro Animal_invalido)
   \<and> (encontraPessoas a b c = lista l
     \<longrightarrow> distinct (parseLista a) \<and> set (parseLista a) \<subseteq> set brinquedosValidos
        \<and> distinct (parseLista b) \<and> set (parseLista b) \<subseteq> set brinquedosValidos
        \<and> distinct (parseLista c) \<and> (\<forall>n \<in> set (parseLista c). catalogo n \<noteq> Indefinido))"
proof (intro conjI)
  show "\<not> (distinct (parseLista a) \<and> set (parseLista a) \<subseteq> set brinquedosValidos)
      \<or> \<not> (distinct (parseLista b) \<and> set (parseLista b) \<subseteq> set brinquedosValidos)
     \<longrightarrow> encontraPessoas a b c = erro Brinquedo_invalido"
    by (rule impI) (rule encontraPessoas_brinquedos)
  show "distinct (parseLista a) \<and> set (parseLista a) \<subseteq> set brinquedosValidos
      \<and> distinct (parseLista b) \<and> set (parseLista b) \<subseteq> set brinquedosValidos
      \<and> (\<not> distinct (parseLista c) \<or> (\<exists>n \<in> set (parseLista c). catalogo n = Indefinido))
     \<longrightarrow> encontraPessoas a b c = erro Animal_invalido"
    by (rule impI) (rule encontraPessoas_animais, simp_all)
  show "encontraPessoas a b c = lista l
     \<longrightarrow> distinct (parseLista a) \<and> set (parseLista a) \<subseteq> set brinquedosValidos
        \<and> distinct (parseLista b) \<and> set (parseLista b) \<subseteq> set brinquedosValidos
        \<and> distinct (parseLista c) \<and> (\<forall>n \<in> set (parseLista c). catalogo n \<noteq> Indefinido)"
    by (rule impI) (rule encontraPessoas_lista)
qed

theorem C6_validation_errors_witness:
  "encontraPessoas (Str ''RATO,BOLA'') (Str ''LASER,LASER'') (Str ''Rex'') = erro Brinquedo_invalido
   \<and> encontraPessoas (Str ''RATO,BOLA'') (Str ''PEDRA'') (Str ''Rex'') = erro Brinquedo_invalido
   \<and> encontraPessoas (Str ''CAIXA,RATO'') (Str ''RATO,BOLA'') (Str ''Lulu'') = erro Animal_invalido
   \<and> encontraPessoas (Str ''CAIXA,RATO'') (Str ''RATO,BOLA'') (Str ''Rex,Rex'') = erro Animal_invalido
   \<and> encontraPessoas (Str ''RATO,BOLA'') (Str ''RATO,NOVELO'') (Str ''Rex,Fofo'')
       = lista [''Fofo - abrigo'', ''Rex - pessoa 1'']
   \<and> distinct (parseLista (Str ''RATO,BOLA''))
        \<and> set (parseLista (Str ''RATO,BOLA'')) \<subseteq> set brinquedosValidos
        \<and> distinct (parseLista (Str ''RATO,NOVELO''))
        \<and> set (parseLista (Str ''RATO,NOVELO'')) \<subseteq> set brinquedosValidos
        \<and> distinct (parseLista (Str ''Rex,Fofo''))
        \<and> list_all (\<lambda>n. catalogo n \<noteq> Indefinido) (parseLista (Str ''Rex,Fofo''))"
proof -
  have p: "parseLista (Str ''RATO,BOLA'') = [''RATO'', ''BOLA'']"
    "parseLista (Str ''LASER,LASER'') = [''LASER'', ''LASER'']"
    "parseLista (Str ''PEDRA'') = [''PEDRA'']"
    "parseLista (Str ''CAIXA,RATO'') = [''CAIXA'', ''RATO'']"
    "parseLista (Str ''Lulu'') = [''Lulu'']"
    "parseLista (Str ''Rex,Rex'') = [''Rex'', ''Rex'']"
    "parseLista (Str ''Rex'') = [''Rex'']"
    by (simp_all add: trim_def espaco_def)
  have h1: "\<not> (distinct (parseLista (Str ''RATO,BOLA'')) \<and> set (parseLista (Str ''RATO,BOLA'')) \<subseteq> set brinquedosValidos)
      \<or> \<not> (distinct (parseLista (Str ''LASER,LASER'')) \<and> set (parseLista (Str ''LASER,LASER'')) \<subseteq> set brinquedosValidos)"
    apply (simp only: p)
    apply (simp add: brinquedosValidos_def catalogo_def catalogo_entradas_def
        object_prototype_chaves_def)
    done
  have "\<not> (distinct (parseLista (Str ''RATO,BOLA'')) \<and> set (parseLista (Str ''RATO,BOLA'')) \<subseteq> set brinquedosValidos)
      \<or> \<not> (distinct (parseLista (Str ''LASER,LASER'')) \<and> set (parseLista (Str ''LASER,LASER'')) \<subseteq> set brinquedosValidos)
     \<longrightarrow> encontraPessoas (Str ''RATO,BOLA'') (Str ''LASER,LASER'') (Str ''Rex'') = erro Brinquedo_invalido"
    using C6_validation_errors [of "Str ''RATO,BOLA''" "Str ''LASER,LASER''" "Str ''Rex''" "[]"]
    by (elim conjE)
  from this h1 have r1: "encontraPessoas (Str ''RATO,BOLA'') (Str ''LASER,LASER'') (Str ''Rex'') = erro Brinquedo_invalido"
    by (rule mp)
  have h2: "\<not> (distinct (parseLista (Str ''RATO,BOLA'')) \<and> set (parseLista (Str ''RATO,BOLA'')) \<subseteq> set brinquedosValidos)
      \<or> \<not> (distinct (parseLista (Str ''PEDRA'')) \<and> set (parseLista (Str ''PEDRA'')) \<subseteq> set brinquedosValidos)"
    apply (simp only: p)
    apply (simp add: brinquedosValidos_def catalogo_def catalogo_entradas_def
        object_prototype_chaves_def)
    done
  have "\<not> (distinct (parseLista (Str ''RATO,BOLA'')) \<and> set (parseLista (Str ''RATO,BOLA'')) \<subseteq> set brinquedosValidos)
      \<or> \<not> (distinct (parseLista (Str ''PEDRA'')) \<and> set (parseLista (Str ''PEDRA'')) \<subseteq> set brinquedosValidos)
     \<longrightarrow> encontraPessoas (Str ''RATO,BOLA'') (Str ''PEDRA'') (Str ''Rex'') = erro Brinquedo_invalido"
    using C6_validation_errors [of "Str ''RATO,BOLA''" "Str ''PEDRA''" "Str ''Rex''" "[]"]
    by (elim conjE)
  from this h2 have r2: "encontraPessoas (Str ''RATO,BOLA'') (Str ''PEDRA'') (Str ''Rex'') = erro Brinquedo_invalido"
    by (rule mp)
  have h3: "distinct (parseLista (Str ''CAIXA,RATO'')) \<and> set (parseLista (Str ''CAIXA,RATO'')) \<subseteq> set brinquedosValidos
      \<and> distinct (parseLista (Str ''RATO,BOLA'')) \<and> set (parseLista (Str ''RATO,BOLA'')) \<subseteq> set brinquedosValidos
      \<and> (\<not> distinct (parseLista (Str ''Lulu'')) \<or> (\<exists>n \<in> set (parseLista (Str ''Lulu'')). catalogo n = Indefinido))"
    apply (simp only: p)
    apply (simp add: brinquedosValidos_def catalogo_def catalogo_entradas_def
        object_prototype_chaves_def)
    done
  have "distinct (parseLista (Str ''CAIXA,RATO'')) \<and> set (parseLista (Str ''CAIXA,RATO'')) \<subseteq> set brinquedosValidos
      \<and> distinct (parseLista (Str ''RATO,BOLA'')) \<and> set (parseLista (Str ''RATO,BOLA'')) \<subseteq> set brinquedosValidos
      \<and> (\<not> distinct (parseLista (Str ''Lulu'')) \<or> (\<exists>n \<in> set (parseLista (Str ''Lulu'')). catalogo n = Indefinido))
     \<longrightarrow> encontraPessoas (Str ''CAIXA,RATO'') (Str ''RATO,BOLA'') (Str ''Lulu'') = erro Animal_invalido"
    using C6_validation_errors [of "Str ''CAIXA,RATO''" "Str ''RATO,BOLA''" "Str ''Lulu''" "[]"]
    by (elim conjE)
  from this h3 have r3: "encontraPessoas (Str ''CAIXA,RATO'') (Str ''RATO,BOLA'') (Str ''Lulu'') = erro Animal_invalido"
    by (rule mp)
  have h4: "distinct (parseLista (Str ''CAIXA,RATO'')) \<and> set (parseLista (Str ''CAIXA,RATO'')) \<subseteq> set brinquedosValidos
      \<and> distinct (parseLista (Str ''RATO,BOLA'')) \<and> set (parseLista (Str ''RATO,BOLA'')) \<subseteq> set brinquedosValidos
      \<and> (\<not> distinct (parseLista (Str ''Rex,Rex'')) \<or> (\<exists>n \<in> set (parseLista (Str ''Rex,Rex'')). catalogo n = Indefinido))"
    apply (simp only: p)
    apply (simp add: brinquedosValidos_def catalogo_def catalogo_entradas_def
        object_prototype_chaves_def)
    done
  have "distinct (parseLista (Str ''CAIXA,RATO'')) \<and> set (parseLista (Str ''CAIXA,RATO'')) \<subseteq> set brinquedosValidos
      \<and> distinct (parseLista (Str ''RATO,BOLA'')) \<and> set (parseLista (Str ''RATO,BOLA'')) \<subseteq> set brinquedosValidos
      \<and> (\<not> distinct (parseLista (Str ''Rex,Rex'')) \<or> (\<exists>n \<in> set (parseLista (Str ''Rex,Rex'')). catalogo n = Indefinido))
     \<longrightarrow> encontraPessoas (Str ''CAIXA,RATO'') (Str ''RATO,BOLA'') (Str ''Rex,Rex'') = erro Animal_invalido"
    using C6_validation_errors [of "Str ''CAIXA,RATO''" "Str ''RATO,BOLA''" "Str ''Rex,Rex''" "[]"]
    by (elim conjE)
  from this h4 have r4: "encontraPessoas (Str ''CAIXA,RATO'') (Str ''RATO,BOLA'') (Str ''Rex,Rex'') = erro Animal_invalido"
    by (rule mp)
  have l: "encontraPessoas (Str ''RATO,BOLA'') (Str ''RATO,NOVELO'') (Str ''Rex,Fofo'')
       = lista [''Fofo - abrigo'', ''Rex - pessoa 1'']"
    by (simp add: avalia_entrada avalia formata_def localeCompare_def)
  have "encontraPessoas (Str ''RATO,BOLA'') (Str ''RATO,NOVELO'') (Str ''Rex,Fofo'')
       = lista [''Fofo - abrigo'', ''Rex - pessoa 1'']
     \<longrightarrow> distinct (parseLista (Str ''RATO,BOLA''))
        \<and> set (parseLista (Str ''RATO,BOLA'')) \<subseteq> set brinquedosValidos
        \<and> distinct (parseLista (Str ''RATO,NOVELO''))
        \<and> set (parseLista (Str ''RATO,NOVELO'')) \<subseteq> set brinquedosValidos
        \<and> distinct (parseLista (Str ''Rex,Fofo''))
        \<and> (\<forall>n \<in> set (parseLista (Str ''Rex,Fofo'')). catalogo n \<noteq> Indefinido)"
    using C6_validation_errors [of "Str ''RATO,BOLA''" "Str ''RATO,NOVELO''" "Str ''Rex,Fofo''"
        "[''Fofo - abrigo'', ''Rex - pessoa 1'']"]
    by (elim conjE)
  from this l have v: "distinct (parseLista (Str ''RATO,BOLA''))
        \<and> set (parseLista (Str ''RATO,BOLA'')) \<subseteq> set brinquedosValidos
        \<and> distinct (parseLista (Str ''RATO,NOVELO''))
        \<and> set (parseLista (Str ''RATO,NOVELO'')) \<subseteq> set brinquedosValidos
        \<and> distinct (parseLista (Str ''Rex,Fofo''))
        \<and> (\<forall>n \<in> set (parseLista (Str ''Rex,Fofo'')). catalogo n \<noteq> Indefinido)"
    by (rule mp)
  show ?thesis
    unfolding list_all_iff
    by (rule conjI [OF r1 conjI [OF r2 conjI [OF r3 conjI [OF r4 conjI [OF l v]]]]])
qed

text \<open>The string that \<open>#parseLista\<close> reads in an argument.\<close>

lemma parseLista_texto:
  "parseLista x = parseLista (Str (case x of Str s \<Rightarrow> s | NaoString \<Rightarrow> []))"
  by (cases x) (simp_all add: trim_def)

lemma encontraPessoas_cong:
  assumes "parseLista a = parseLista a'" and "parseLista b = parseLista b'"
    and "parseLista c = parseLista c'"
  shows "encontraPessoas a b c = encontraPessoas a' b' c'"
  by (simp only: encontraPessoas_def encontraPessoas_corpo_def assms)

text \<open>
  Claim C7, as stated, fails: with three arguments that are not strings the call does
  not fail, it returns the empty list of placements.
\<close>

theorem C7_non_string_arguments_counterexample:
  "encontraPessoas NaoString NaoString NaoString = lista []"
  by (simp add: encontraPessoas_def encontraPessoas_corpo_def validaBrinquedos_def
      validaAnimais_def processaAdocoes_def processaAdocoes_estado_def)

text \<open>
  Claim C7, amended. An argument that is not a string is not an error: the call gives
  what it gives when the empty string stands in its place. What is reported as the toy
  error is every exception raised inside the call that is not one of the two validation
  errors; the validation errors keep their message, and a call that raises nothing
  returns its list.
\<close>

theorem C7_catch_all_is_toy_error:
  "encontraPessoas x y z =
     encontraPessoas (Str (case x of Str s \<Rightarrow> s | NaoString \<Rightarrow> []))
       (Str (case y of Str s \<Rightarrow> s | NaoString \<Rightarrow> []))
       (Str (case z of Str s \<Rightarrow> s | NaoString \<Rightarrow> []))
   \<and> (encontraPessoas_corpo x y z = Inl TypeError
        \<longrightarrow> encontraPessoas x y z = erro Brinquedo_invalido)
   \<and> (encontraPessoas_corpo x y z = Inl (Error m) \<longrightarrow> encontraPessoas x y z = erro m)
   \<and> (encontraPessoas_corpo x y z = Inr l \<longrightarrow> encontraPessoas x y z = lista l)"
proof (intro conjI impI)
  show "encontraPessoas x y z =
     encontraPessoas (Str (case x of Str s \<Rightarrow> s | NaoString \<Rightarrow> []))
       (Str (case y of Str s \<Rightarrow> s | NaoString \<Rightarrow> []))
       (Str (case z of Str s \<Rightarrow> s | NaoString \<Rightarrow> []))"
    by (rule encontraPessoas_cong) (rule parseLista_texto)+
qed (simp_all add: encontraPessoas_def)

theorem C7_catch_all_is_toy_error_witness:
  "encontraPessoas_corpo (Str []) NaoString (Str ''constructor'') = Inl TypeError
   \<and> encontraPessoas (Str []) NaoString (Str ''constructor'') = erro Brinquedo_invalido
   \<and> encontraPessoas (Str []) (Str []) (Str ''constructor'') = erro Brinquedo_invalido"
proof -
  have p: "parseLista (Str ''constructor'') = [''constructor'']"
    by (simp add: trim_def espaco_def)
  have c: "encontraPessoas_corpo (Str []) NaoString (Str ''constructor'') = Inl TypeError"
    apply (simp only: encontraPessoas_corpo_def p)
    apply (simp add: trim_def validaBrinquedos_def validaAnimais_def avalia)
    done
  note t = C7_catch_all_is_toy_error [of "Str []" NaoString "Str ''constructor''" Brinquedo_invalido "[]"]
  have "encontraPessoas_corpo (Str []) NaoString (Str ''constructor'') = Inl TypeError
        \<longrightarrow> encontraPessoas (Str []) NaoString (Str ''constructor'') = erro Brinquedo_invalido"
    using t by (elim conjE)
  from this c have r: "encontraPessoas (Str []) NaoString (Str ''constructor'') = erro Brinquedo_invalido"
    by (rule mp)
  have "encontraPessoas (Str []) NaoString (Str ''constructor'') =
     encontraPessoas (Str (case Str [] of Str s \<Rightarrow> s | NaoString \<Rightarrow> []))
       (Str (case NaoString of Str s \<Rightarrow> s | NaoString \<Rightarrow> []))
       (Str (case Str ''constructor'' of Str s \<Rightarrow> s | NaoString \<Rightarrow> []))"
    using t by (elim conjE)
  then have "encontraPessoas (Str []) NaoString (Str ''constructor'')
      = encontraPessoas (Str []) (Str []) (Str ''constructor'')"
    by (simp only: jsvalor.case)
  with r have "encontraPessoas (Str []) (Str []) (Str ''constructor'') = erro Brinquedo_invalido"
    by (simp only:)
  with c r show ?thesis by (intro conjI)
qed

section \<open>The returned list\<close>

lemma localeCompare_menor: "localeCompare a b \<le> 0 \<longleftrightarrow> a \<le> b"
  by (auto simp: localeCompare_def)

lemma set_insere: "set (insere cmp x ys) = insert x (set ys)"
  by (induction ys) auto

lemma length_insere: "length (insere cmp x ys) = Suc (length ys)"
  by (induction ys) auto

lemma distinct_insere: "distinct (insere cmp x ys) \<longleftrightarrow> x \<notin> set ys \<and> distinct ys"
  by (induction ys) (auto simp: set_insere)

lemma sorted_insere:
  "sorted ys \<Longrightarrow> sorted (insere localeCompare x ys)"
  by (induction ys) (auto simp: set_insere localeCompare_menor)

lemma set_ordena: "set (ordena cmp xs) = set xs"
  by (induction xs) (auto simp: set_insere)

lemma length_ordena: "length (ordena cmp xs) = length xs"
  by (induction xs) (auto simp: length_insere)

lemma distinct_ordena: "distinct (ordena cmp xs) \<longleftrightarrow> distinct xs"
  by (induction xs) (auto simp: distinct_insere set_ordena)

lemma sorted_ordena: "sorted (ordena localeCompare xs)"
  by (induction xs) (auto simp: sorted_insere)

lemma reconcilia_passo_chaves:
  "map fst (snd (reconcilia_passo p1Toys p2Toys x ed)) = map fst (snd ed)"
proof -
  have "map_of (snd ed) ''Loco'' = Some quem \<Longrightarrow>
      map fst (AList.update ''Loco'' ''abrigo'' (snd ed)) = map fst (snd ed)" for quem
    by (auto simp: update_keys dest: map_of_SomeD intro: rev_image_eqI)
  then show ?thesis
    by (auto simp: reconcilia_passo_def Let_def split: option.splits)
qed

lemma reconcilia_passo_valores:
  "snd ` set (snd (reconcilia_passo p1Toys p2Toys x ed)) \<subseteq> insert ''abrigo'' (snd ` set (snd ed))"
proof -
  from reconcilia_passo_casos [of p1Toys p2Toys x ed]
  have "snd (reconcilia_passo p1Toys p2Toys x ed) = snd ed
    \<or> snd (reconcilia_passo p1Toys p2Toys x ed) = AList.update ''Loco'' ''abrigo'' (snd ed)"
    by auto
  then show ?thesis
  proof
    assume "snd (reconcilia_passo p1Toys p2Toys x ed) = snd ed"
    then show ?thesis by auto
  next
    assume "snd (reconcilia_passo p1Toys p2Toys x ed) = AList.update ''Loco'' ''abrigo'' (snd ed)"
    with update_valores [of "''Loco''" "''abrigo''" "snd ed"] show ?thesis by simp
  qed
qed

lemma passo_proprio:
  assumes "passo p1Toys p2Toys nome (est, destino) = Inr ed"
  shows "nome \<in> fst ` set catalogo_entradas"
proof -
  from assms obtain b where "pode 1 p1Toys nome = Inr b"
    by (auto simp: passo_def Let_def pode_estado simp del: pessoaElegivelParaAnimal.simps
        split: sum.splits if_splits)
  then obtain i where "map_of catalogo_entradas nome = Some i"
    by (auto simp: pode_def catalogo_def split: option.splits if_splits)
  then show ?thesis
    by (auto dest: map_of_SomeD intro: rev_image_eqI)
qed

lemma alocacao_proprios:
  "alocacao p1Toys p2Toys ordem (est, destino) = Inr (est', destino') \<Longrightarrow>
   set ordem \<subseteq> fst ` set catalogo_entradas"
proof (induction ordem arbitrary: est destino)
  case Nil
  then show ?case by simp
next
  case (Cons nome resto)
  from Cons.prems obtain est1 destino1 where
    p: "passo p1Toys p2Toys nome (est, destino) = Inr (est1, destino1)"
    and r: "alocacao p1Toys p2Toys resto (est1, destino1) = Inr (est', destino')"
    by (rule alocacao_Cons_Inr)
  from passo_proprio [OF p] Cons.IH [OF r] show ?case by simp
qed

lemma processaAdocoes_chaves:
  assumes r: "processaAdocoes p1Toys p2Toys ordem = Inr adocoes" and d: "distinct ordem"
  shows "map fst adocoes = ordem
    \<and> snd ` set adocoes \<subseteq> {''abrigo'', ''pessoa 1'', ''pessoa 2''}
    \<and> set ordem \<subseteq> fst ` set catalogo_entradas"
proof -
  from r obtain est destino where
    a: "alocacao p1Toys p2Toys ordem (estado_inicial, []) = Inr (est, destino)"
    and e: "adocoes = snd (reconcilia p1Toys p2Toys (map fst destino) (est, destino))"
    by (rule processaAdocoes_Inr)
  from e have e': "adocoes = snd (reconcilia_passo p1Toys p2Toys ''Loco'' (est, destino))"
    by (simp only: reconcilia_chaves)
  have "int (length (colocados 1 [])) = total_adotados (estado_inicial 1)"
    by (simp add: colocados_def estado_inicial_cotas)
  from alocacao_contagem_exata [OF a _ _ this] d
  have k: "map fst destino = ordem" by simp
  have "snd ` set [] \<subseteq> {''abrigo'', ''pessoa 1'', ''pessoa 2''}" by simp
  from alocacao_valores [OF a this]
  have v: "snd ` set destino \<subseteq> {''abrigo'', ''pessoa 1'', ''pessoa 2''}" .
  from reconcilia_passo_chaves [of p1Toys p2Toys "''Loco''" "(est, destino)"] e' k
  have 1: "map fst adocoes = ordem" by simp
  from reconcilia_passo_valores [of p1Toys p2Toys "''Loco''" "(est, destino)"] e' v
  have 2: "snd ` set adocoes \<subseteq> {''abrigo'', ''pessoa 1'', ''pessoa 2''}" by auto
  from alocacao_proprios [OF a] have 3: "set ordem \<subseteq> fst ` set catalogo_entradas" .
  from 1 2 3 show ?thesis by simp
qed

lemma encontraPessoas_lista_corpo:
  assumes "encontraPessoas a b c = lista l"
  obtains adocoes where
    "processaAdocoes (parseLista a) (parseLista b) (parseLista c) = Inr adocoes"
    "l = map (formata adocoes) (ordena localeCompare (map fst adocoes))"
  using assms
  by (auto simp: encontraPessoas_def encontraPessoas_corpo_def Let_def
      split: sum.splits excecao.splits)

text \<open>
  Claim C9. When the call returns a list, the names of the order are pairwise distinct
  names of the catalogue, and the list has one string for each of them, the name followed
  by \<open>" - "\<close> and by the destination of that animal, which is one of \<open>abrigo\<close>,
  \<open>pessoa 1\<close> and \<open>pessoa 2\<close>; the strings come in the ascending order of the names.
\<close>

theorem C9_result_format:
  assumes "encontraPessoas a b c = lista l"
  shows "\<exists>adocoes nomes.
      processaAdocoes (parseLista a) (parseLista b) (parseLista c) = Inr adocoes
    \<and> map fst adocoes = parseLista c
    \<and> distinct (parseLista c) \<and> set (parseLista c) \<subseteq> fst ` set catalogo_entradas
    \<and> sorted nomes \<and> distinct nomes \<and> set nomes = set (parseLista c)
    \<and> length nomes = length (parseLista c)
    \<and> l = map (\<lambda>nome. nome @ '' - '' @ the (map_of adocoes nome)) nomes
    \<and> (\<forall>nome \<in> set nomes.
          map_of adocoes nome = Some ''abrigo'' \<or> map_of adocoes nome = Some ''pessoa 1''
          \<or> map_of adocoes nome = Some ''pessoa 2'')"
proof -
  from assms obtain adocoes where
    r: "processaAdocoes (parseLista a) (parseLista b) (parseLista c) = Inr adocoes"
    and l: "l = map (formata adocoes) (ordena localeCompare (map fst adocoes))"
    by (rule encontraPessoas_lista_corpo)
  from encontraPessoas_lista [OF assms] have d: "distinct (parseLista c)" by simp
  from processaAdocoes_chaves [OF r d]
  have k: "map fst adocoes = parseLista c"
    and v: "snd ` set adocoes \<subseteq> {''abrigo'', ''pessoa 1'', ''pessoa 2''}"
    and p: "set (parseLista c) \<subseteq> fst ` set catalogo_entradas" by simp_all
  let ?nomes = "ordena localeCompare (parseLista c)"
  have f: "formata adocoes = (\<lambda>nome. nome @ '' - '' @ the (map_of adocoes nome))"
    by (rule ext) (simp add: formata_def)
  have q: "\<forall>nome \<in> set ?nomes.
          map_of adocoes nome = Some ''abrigo'' \<or> map_of adocoes nome = Some ''pessoa 1''
          \<or> map_of adocoes nome = Some ''pessoa 2''"
  proof
    fix nome assume "nome \<in> set ?nomes"
    then have "nome \<in> set (map fst adocoes)" by (simp add: set_ordena k)
    then obtain quem where m: "map_of adocoes nome = Some quem"
      by (cases "map_of adocoes nome") (auto simp: map_of_eq_None_iff)
    then have "(nome, quem) \<in> set adocoes" by (rule map_of_SomeD)
    then have "quem \<in> snd ` set adocoes" by (auto intro: rev_image_eqI)
    with v m show "map_of adocoes nome = Some ''abrigo'' \<or> map_of adocoes nome = Some ''pessoa 1''
          \<or> map_of adocoes nome = Some ''pessoa 2''" by auto
  qed
  have "processaAdocoes (parseLista a) (parseLista b) (parseLista c) = Inr adocoes
    \<and> map fst adocoes = parseLista c
    \<and> distinct (parseLista c) \<and> set (parseLista c) \<subseteq> fst ` set catalogo_entradas
    \<and> sorted ?nomes \<and> distinct ?nomes \<and> set ?nomes = set (parseLista c)
    \<and> length ?nomes = length (parseLista c)
    \<and> l = map (\<lambda>nome. nome @ '' - '' @ the (map_of adocoes nome)) ?nomes
    \<and> (\<forall>nome \<in> set ?nomes.
          map_of adocoes nome = Some ''abrigo'' \<or> map_of adocoes nome = Some ''pessoa 1''
          \<or> map_of adocoes nome = Some ''pessoa 2'')"
    using r k d p q l f
    by (simp add: sorted_ordena distinct_ordena set_ordena length_ordena)
  then show ?thesis by blast
qed

theorem C9_result_format_witness:
  "encontraPessoas (Str ''RATO,BOLA'') (Str ''RATO,NOVELO'') (Str ''Rex,Fofo'')
       = lista [''Fofo - abrigo'', ''Rex - pessoa 1'']
   \<and> (\<exists>adocoes nomes.
      processaAdocoes (parseLista (Str ''RATO,BOLA'')) (parseLista (Str ''RATO,NOVELO''))
        (parseLista (Str ''Rex,Fofo'')) = Inr adocoes
    \<and> map fst adocoes = parseLista (Str ''Rex,Fofo'')
    \<and> distinct (parseLista (Str ''Rex,Fofo''))
    \<and> set (parseLista (Str ''Rex,Fofo'')) \<subseteq> fst ` set catalogo_entradas
    \<and> sorted nomes \<and> distinct nomes \<and> set nomes = set (parseLista (Str ''Rex,Fofo''))
    \<and> length nomes = length (parseLista (Str ''Rex,Fofo''))
    \<and> [''Fofo - abrigo'', ''Rex - pessoa 1'']
        = map (\<lambda>nome. nome @ '' - '' @ the (map_of adocoes nome)) nomes
    \<and> (\<forall>nome \<in> set nomes.
          map_of adocoes nome = Some ''abrigo'' \<or> map_of adocoes nome = Some ''pessoa 1''
          \<or> map_of adocoes nome = Some ''pessoa 2''))"
proof -
  have l: "encontraPessoas (Str ''RATO,BOLA'') (Str ''RATO,NOVELO'') (Str ''Rex,Fofo'')
       = lista [''Fofo - abrigo'', ''Rex - pessoa 1'']"
    by (simp add: avalia_entrada avalia formata_def localeCompare_def)
  from l C9_result_format [OF l] show ?thesis by (rule conjI)
qed

end
